theory Spec2Isabelle
  imports Main "HOL-Library.Code_Target_Nat"
begin

section \<open>Values of the decoded table file\<close>

text \<open>
  The decoder (\<open>luaAstToJson\<close>) produces untyped JavaScript values and the extractor
  reads them with property accesses and \<open>||\<close> defaults, so the data model is the
  JavaScript value itself. Numbers are modelled as integers (the numeric literals of a
  saved-variables file that the program reads are counts, skill levels and timestamps);
  \<open>JNaN\<close> is the one non-integer number the decoder can produce from them. \<open>JNum n\<close>
  stands for the JavaScript number of value \<open>n\<close>, which is exact for every integer
  of magnitude up to \<open>2^53\<close>; literals with a fraction, and integers beyond that
  range (which JavaScript rounds), are outside the model. A plain
  object is its list of own properties in enumeration order, with distinct keys.
\<close>

datatype js =
    JUndefined
  | JNull
  | JBool bool
  | JNum int
  | JNaN
  | JStr string
  | JArr "js list"
  | JObj "(string \<times> js) list"

subsection \<open>The JavaScript operations the program applies to these values\<close>

text \<open>What a \<open>throw\<close> carries: a \<open>TypeError\<close> of the runtime, or the decoder's own error
  for a node type it does not handle.\<close>

datatype js_error = TypeError | CantParseNodeType string

text \<open>Truthiness, as tested by \<open>if\<close>, \<open>&&\<close>, \<open>||\<close> and \<open>?:\<close>.\<close>

fun truthy :: "js \<Rightarrow> bool" where
  "truthy JUndefined = False"
| "truthy JNull = False"
| "truthy (JBool b) = b"
| "truthy (JNum n) = (n \<noteq> 0)"
| "truthy JNaN = False"
| "truthy (JStr s) = (s \<noteq> [])"
| "truthy (JArr xs) = True"
| "truthy (JObj kvs) = True"

definition js_or :: "js \<Rightarrow> js \<Rightarrow> js" where
  "js_or a b = (if truthy a then a else b)"

text \<open>
  Reading a property \<open>v.p\<close>, for the property names the program reads
  (\<open>key\<close>, \<open>value\<close>, \<open>__internal_table_key\<close>, \<open>character_data\<close>, \<open>name\<close>, ...): none
  of them is defined by the prototype of a string, number, boolean, array or plain
  object, so only an object's own property can answer (\<open>own_prop\<close>). Reading from
  \<open>null\<close> or \<open>undefined\<close> throws (\<open>get_prop\<close>).
\<close>

definition nullish :: "js \<Rightarrow> bool" where
  "nullish v = (v = JNull \<or> v = JUndefined)"

fun own_prop :: "js \<Rightarrow> string \<Rightarrow> js" where
  "own_prop (JObj kvs) p = (case map_of kvs p of Some v \<Rightarrow> v | None \<Rightarrow> JUndefined)"
| "own_prop v p = JUndefined"

definition get_prop :: "js \<Rightarrow> string \<Rightarrow> js_error + js" where
  "get_prop v p = (if nullish v then Inl TypeError else Inr (own_prop v p))"

text \<open>Decimal text of an integer.\<close>

fun nat_digits :: "nat \<Rightarrow> string" where
  "nat_digits n =
     (if n < 10 then [''0123456789'' ! n]
      else nat_digits (n div 10) @ [''0123456789'' ! (n mod 10)])"

declare nat_digits.simps [simp del]

definition int_to_string :: "int \<Rightarrow> string" where
  "int_to_string i = (if i < 0 then CHR ''-'' # nat_digits (nat (- i)) else nat_digits (nat i))"

fun join_comma :: "string list \<Rightarrow> string" where
  "join_comma [] = []"
| "join_comma [s] = s"
| "join_comma (s # t # ss) = s @ CHR '','' # join_comma (t # ss)"

text \<open>\<open>String(v)\<close>, which is also how a value becomes a property key. An array is the
  join of its elements, with \<open>null\<close> and \<open>undefined\<close> elements left empty. A number
  prints in decimal digits: that is \<open>String(n)\<close> for the integers of magnitude up to
  \<open>2^53\<close> that the model covers (beyond them JavaScript prints the shortest digits
  that read back as the same number, and an exponent from \<open>10^21\<close> on).\<close>

fun js_to_string :: "js \<Rightarrow> string" where
  "js_to_string JUndefined = ''undefined''"
| "js_to_string JNull = ''null''"
| "js_to_string (JBool b) = (if b then ''true'' else ''false'')"
| "js_to_string (JNum n) = int_to_string n"
| "js_to_string JNaN = ''NaN''"
| "js_to_string (JStr s) = s"
| "js_to_string (JArr xs) =
     join_comma (map (\<lambda>x. if x = JUndefined \<or> x = JNull then [] else js_to_string x) xs)"
| "js_to_string (JObj kvs) = ''[object Object]''"

text \<open>
  Converting an object to a string or a number calls its \<open>toString\<close>. A table with a
  key \<open>toString\<close> becomes an object whose own \<open>toString\<close> is data and cannot be
  called, and converting it throws a \<open>TypeError\<close>; so does converting an array that
  holds such an object. Every other value converts.
\<close>

fun convertible :: "js \<Rightarrow> bool" where
  "convertible (JObj kvs) = (''toString'' \<notin> set (map fst kvs))"
| "convertible (JArr xs) = (\<forall>x \<in> set xs. convertible x)"
| "convertible v = True"

text \<open>
  Unary minus converts its operand to a number first. How a string converts
  (\<open>StringToNumber\<close>) is left to the parameter \<open>strnum\<close>, which answers with a \<open>JNum\<close>
  or \<open>JNaN\<close>; an array converts through its string, a plain object to NaN.
\<close>

fun to_number :: "(string \<Rightarrow> js) \<Rightarrow> js \<Rightarrow> js" where
  "to_number strnum JUndefined = JNaN"
| "to_number strnum JNull = JNum 0"
| "to_number strnum (JBool b) = JNum (if b then 1 else 0)"
| "to_number strnum (JNum n) = JNum n"
| "to_number strnum JNaN = JNaN"
| "to_number strnum (JStr s) = strnum s"
| "to_number strnum (JArr xs) = strnum (js_to_string (JArr xs))"
| "to_number strnum (JObj kvs) = JNaN"

definition js_negate :: "(string \<Rightarrow> js) \<Rightarrow> js \<Rightarrow> js" where
  "js_negate strnum v = (case to_number strnum v of JNum n \<Rightarrow> JNum (- n) | _ \<Rightarrow> JNaN)"

text \<open>
  Own properties are enumerated with the array indices first, in ascending order, and
  the other keys after them in the order they were created. An array index is the
  canonical decimal text of a number below \<open>2^32 - 1\<close>.
\<close>

definition digits_value :: "string \<Rightarrow> nat" where
  "digits_value s = foldl (\<lambda>a c. 10 * a + (of_char c - 48)) 0 s"

definition array_index :: "string \<Rightarrow> nat option" where
  "array_index s =
     (if s = ''0'' then Some 0
      else if s \<noteq> [] \<and> hd s \<noteq> CHR ''0'' \<and> list_all (\<lambda>c. c \<in> set ''0123456789'') s
              \<and> digits_value s < 2 ^ 32 - 1
      then Some (digits_value s) else None)"

fun insert_index :: "nat \<Rightarrow> string \<Rightarrow> 'a \<Rightarrow> (string \<times> 'a) list \<Rightarrow> (string \<times> 'a) list" where
  "insert_index i k v [] = [(k, v)]"
| "insert_index i k v ((k', v') # rest) =
     (case array_index k' of
        Some j \<Rightarrow> if j < i then (k', v') # insert_index i k v rest
                  else (k, v) # (k', v') # rest
      | None \<Rightarrow> (k, v) # (k', v') # rest)"

text \<open>Defining the own property \<open>k\<close> with value \<open>v\<close>: an existing property keeps
  its place, a new one is created.\<close>

definition obj_set :: "(string \<times> 'a) list \<Rightarrow> string \<Rightarrow> 'a \<Rightarrow> (string \<times> 'a) list" where
  "obj_set obj k v =
     (if k \<in> set (map fst obj)
      then map (\<lambda>(k', v'). if k' = k then (k', v) else (k', v')) obj
      else (case array_index k of
              Some i \<Rightarrow> insert_index i k v obj
            | None \<Rightarrow> obj @ [(k, v)]))"

text \<open>
  The assignment \<open>obj[k] = v\<close> to a plain object defines the own property, except
  for the key \<open>__proto__\<close>: that is the accessor of the object's prototype, and
  assigning to it creates no own property. (What the object then inherits is not
  modelled; the program reads no property through such an object.)
\<close>

definition obj_assign :: "(string \<times> 'a) list \<Rightarrow> string \<Rightarrow> 'a \<Rightarrow> (string \<times> 'a) list" where
  "obj_assign obj k v = (if k = ''__proto__'' then obj else obj_set obj k v)"

text \<open>\<open>Object.fromEntries(pairs)\<close>: each key is converted to a property key and
  defined as an own property. (It throws when a key does not convert; the caller
  tests that.)\<close>

definition obj_from_entries :: "(js \<times> js) list \<Rightarrow> (string \<times> js) list" where
  "obj_from_entries pairs = foldl (\<lambda>obj (k, v). obj_set obj (js_to_string k) v) [] pairs"

text \<open>\<open>Object.entries(v)\<close>; \<open>Object.keys(v)\<close> is its first components.\<close>

fun object_entries :: "js \<Rightarrow> js_error + (string \<times> js) list" where
  "object_entries JUndefined = Inl TypeError"
| "object_entries JNull = Inl TypeError"
| "object_entries (JObj kvs) = Inr kvs"
| "object_entries (JArr xs) = Inr (zip (map nat_digits [0..<length xs]) xs)"
| "object_entries (JStr s) = Inr (zip (map nat_digits [0..<length s]) (map (\<lambda>c. JStr [c]) s))"
| "object_entries v = Inr []"

text \<open>\<open>xs.map(f)\<close> for a callback that may throw: the first throw ends the loop.\<close>

fun map_throw :: "('a \<Rightarrow> 'e + 'b) \<Rightarrow> 'a list \<Rightarrow> 'e + 'b list" where
  "map_throw f [] = Inr []"
| "map_throw f (x # xs) =
     (case f x of
        Inl e \<Rightarrow> Inl e
      | Inr y \<Rightarrow> (case map_throw f xs of Inl e \<Rightarrow> Inl e | Inr ys \<Rightarrow> Inr (y # ys)))"

lemma map_throw_cong [fundef_cong]:
  "xs = ys \<Longrightarrow> (\<And>x. x \<in> set ys \<Longrightarrow> f x = g x) \<Longrightarrow> map_throw f xs = map_throw g ys"
  by (induction ys arbitrary: xs) (auto split: sum.splits)

section \<open>The table decoder\<close>

text \<open>
  The syntax tree of the parser, one constructor per node type the decoder looks at,
  with the fields it reads: a string literal has its \<open>value\<close> (which the parser may
  leave \<open>null\<close>) and its \<open>raw\<close> source text; a unary expression its operator and
  argument; a keyed table field its key and value; a statement its expression lists.
  \<open>OtherNode\<close> stands for every other node type and carries the type's name.
\<close>

datatype ast =
    StringLiteral "string option" string
  | NumericLiteral int
  | BooleanLiteral bool
  | NilLiteral
  | UnaryExpression string ast
  | Identifier string
  | TableKey ast ast
  | TableKeyString ast ast
  | TableValue ast
  | TableConstructorExpression "ast list"
  | LocalStatement "ast list"
  | ReturnStatement "ast list"
  | Chunk "ast list"
  | AssignmentStatement "ast list" "ast list"
  | OtherNode string

text \<open>\<open>ast.fields[0] && ast.fields[0].key\<close>: only the two keyed field nodes have a key.\<close>

fun has_key :: "ast \<Rightarrow> bool" where
  "has_key (TableKey k v) = True"
| "has_key (TableKeyString k v) = True"
| "has_key node = False"

definition first_field_keyed :: "ast list \<Rightarrow> bool" where
  "first_field_keyed fields = (case fields of [] \<Rightarrow> False | field # _ \<Rightarrow> has_key field)"

text \<open>The object a keyed field reduces to.\<close>

definition internal_table_key :: "js \<Rightarrow> js \<Rightarrow> js" where
  "internal_table_key key val =
     JObj [(''__internal_table_key'', JBool True), (''key'', key), (''value'', val)]"

text \<open>\<open>const { key, value } = v\<close>.\<close>

definition destructure_key_value :: "js \<Rightarrow> js_error + js \<times> js" where
  "destructure_key_value v =
     (case get_prop v ''key'' of
        Inl e \<Rightarrow> Inl e
      | Inr key \<Rightarrow> (case get_prop v ''value'' of Inl e \<Rightarrow> Inl e | Inr val \<Rightarrow> Inr (key, val)))"

text \<open>\<open>value.__internal_table_key ? [value.key, value.value] : value\<close>.\<close>

definition array_element :: "js \<Rightarrow> js_error + js" where
  "array_element v =
     (case get_prop v ''__internal_table_key'' of
        Inl e \<Rightarrow> Inl e
      | Inr mark \<Rightarrow>
          (if truthy mark
           then (case destructure_key_value v of
                   Inl e \<Rightarrow> Inl e
                 | Inr (key, val) \<Rightarrow> Inr (JArr [key, val]))
           else Inr v))"

text \<open>\<open>values.length === 1 ? values[0] : values\<close>.\<close>

definition one_or_all :: "js list \<Rightarrow> js" where
  "one_or_all vals = (case vals of [v] \<Rightarrow> v | _ \<Rightarrow> JArr vals)"

text \<open>
  \<open>luaAstToJson\<close>, branch by branch in the order of the source. \<open>assign\<close> is the loop of
  the assignment branch: it runs over the variables and reduces \<open>init[i]\<close> only for a
  variable that is an identifier and has an initialiser.
\<close>

fun luaAstToJson :: "(string \<Rightarrow> js) \<Rightarrow> ast \<Rightarrow> js_error + js"
  and assign :: "(string \<Rightarrow> js) \<Rightarrow> ast list \<Rightarrow> ast list \<Rightarrow> (string \<times> js) list
                   \<Rightarrow> js_error + (string \<times> js) list" where
  "luaAstToJson strnum (StringLiteral val raw) =
     Inr (JStr (case val of
                  Some s \<Rightarrow> s
                | None \<Rightarrow> if raw \<noteq> [] then butlast (tl raw) else []))"
| "luaAstToJson strnum NilLiteral = Inr JNull"
| "luaAstToJson strnum (BooleanLiteral b) = Inr (JBool b)"
| "luaAstToJson strnum (NumericLiteral n) = Inr (JNum n)"
| "luaAstToJson strnum (UnaryExpression operator argument) =
     (if operator = ''-''
      then (case luaAstToJson strnum argument of
              Inl e \<Rightarrow> Inl e
            | Inr v \<Rightarrow> if convertible v then Inr (js_negate strnum v) else Inl TypeError)
      else Inl (CantParseNodeType ''UnaryExpression''))"
| "luaAstToJson strnum (Identifier name) = Inr (JStr name)"
| "luaAstToJson strnum (TableKey k v) =
     (case luaAstToJson strnum k of
        Inl e \<Rightarrow> Inl e
      | Inr key \<Rightarrow>
          (case luaAstToJson strnum v of
             Inl e \<Rightarrow> Inl e
           | Inr val \<Rightarrow> Inr (internal_table_key key val)))"
| "luaAstToJson strnum (TableKeyString k v) =
     (case luaAstToJson strnum k of
        Inl e \<Rightarrow> Inl e
      | Inr key \<Rightarrow>
          (case luaAstToJson strnum v of
             Inl e \<Rightarrow> Inl e
           | Inr val \<Rightarrow> Inr (internal_table_key key val)))"
| "luaAstToJson strnum (TableValue v) = luaAstToJson strnum v"
| "luaAstToJson strnum (TableConstructorExpression fields) =
     (if first_field_keyed fields
      then (case map_throw (\<lambda>field. case luaAstToJson strnum field of
                                        Inl e \<Rightarrow> Inl e
                                      | Inr r \<Rightarrow> destructure_key_value r) fields of
              Inl e \<Rightarrow> Inl e
            | Inr pairs \<Rightarrow>
                if list_all (\<lambda>(key, val). convertible key) pairs
                then (let object = obj_from_entries pairs
                      in Inr (if length (map fst object) = 0 then JArr [] else JObj object))
                else Inl TypeError)
      else (case map_throw (\<lambda>field. case luaAstToJson strnum field of
                                        Inl e \<Rightarrow> Inl e
                                      | Inr v \<Rightarrow> array_element v) fields of
              Inl e \<Rightarrow> Inl e
            | Inr vals \<Rightarrow> Inr (JArr vals)))"
| "luaAstToJson strnum (LocalStatement init) =
     (case map_throw (luaAstToJson strnum) init of
        Inl e \<Rightarrow> Inl e
      | Inr vals \<Rightarrow> Inr (one_or_all vals))"
| "luaAstToJson strnum (ReturnStatement arguments) =
     (case map_throw (luaAstToJson strnum) arguments of
        Inl e \<Rightarrow> Inl e
      | Inr vals \<Rightarrow> Inr (one_or_all vals))"
| "luaAstToJson strnum (Chunk body) =
     (case body of
        [] \<Rightarrow> Inl TypeError
      | statement # _ \<Rightarrow> luaAstToJson strnum statement)"
| "luaAstToJson strnum (AssignmentStatement variables init) =
     (case assign strnum variables init [] of
        Inl e \<Rightarrow> Inl e
      | Inr result \<Rightarrow> Inr (JObj result))"
| "luaAstToJson strnum (OtherNode type) = Inl (CantParseNodeType type)"
| "assign strnum [] init result = Inr result"
| "assign strnum (variable # variables) [] result = Inr result"
| "assign strnum (variable # variables) (initValue # init) result =
     (case variable of
        Identifier variableName \<Rightarrow>
          (case luaAstToJson strnum initValue of
             Inl e \<Rightarrow> Inl e
           | Inr v \<Rightarrow> assign strnum variables init (obj_assign result variableName v))
      | _ \<Rightarrow> assign strnum variables init result)"

subsection \<open>The snapshot (\<open>AddonData\<close>) and its parts\<close>

record profession_data =
  prof_name :: js
  skillLevel :: js
  maxSkill :: js
  recipes :: "int list"

record character_data =
  char_name :: js
  char_realm :: js
  cards :: "js list"
  professions :: "profession_data list"
  char_class :: js
  lastUpdate :: int

record auction_data =
  lastScan :: js
  scanCount :: js
  auction_realm :: js
  itemCount :: nat
  auction_items :: js

record addon_data =
  characters :: "(string \<times> character_data) list"
  auctionData :: auction_data
  craftedCards :: js
  settings :: js
  snapshot_timestamp :: int
  version :: string

section \<open>The extraction entry point\<close>

text \<open>
  The inner loop of \<open>extractScribeyDBFromAST\<close> over the variables of one assignment:
  at the first variable that is the identifier \<open>ScribeyDB\<close> and has an initialiser, the
  function returns the reduced initialiser (or throws with it). \<open>None\<close> means the
  loop ended without returning.
\<close>

fun scan_variables :: "(string \<Rightarrow> js) \<Rightarrow> ast list \<Rightarrow> ast list \<Rightarrow> (js_error + js) option" where
  "scan_variables strnum [] init = None"
| "scan_variables strnum (variable # variables) init =
     (if variable = Identifier ''ScribeyDB''
      then (case init of
              [] \<Rightarrow> scan_variables strnum variables []
            | init_i # _ \<Rightarrow> Some (luaAstToJson strnum init_i))
      else scan_variables strnum variables (tl init))"

text \<open>The outer loop over \<open>ast.body\<close>; falling out of it returns \<open>null\<close>.\<close>

fun scan_statements :: "(string \<Rightarrow> js) \<Rightarrow> ast list \<Rightarrow> js_error + js" where
  "scan_statements strnum [] = Inr JNull"
| "scan_statements strnum (statement # body) =
     (case statement of
        AssignmentStatement variables init \<Rightarrow>
          (case scan_variables strnum variables init of
             Some r \<Rightarrow> r
           | None \<Rightarrow> scan_statements strnum body)
      | _ \<Rightarrow> scan_statements strnum body)"

text \<open>
  \<open>extractScribeyDBFromAST\<close>: the \<open>catch\<close> turns every throw into \<open>null\<close>, also the
  one of iterating the missing \<open>body\<close> of a node that is not a chunk.
\<close>

definition extractScribeyDBFromAST :: "(string \<Rightarrow> js) \<Rightarrow> ast \<Rightarrow> js" where
  "extractScribeyDBFromAST strnum ast =
     (case ast of
        Chunk body \<Rightarrow> (case scan_statements strnum body of Inl e \<Rightarrow> JNull | Inr v \<Rightarrow> v)
      | _ \<Rightarrow> JNull)"

section \<open>The domain extractor\<close>

text \<open>\<open>s.split('-')\<close>: the pieces between the dashes, never an empty list.\<close>

fun split_dash :: "string \<Rightarrow> string list" where
  "split_dash [] = [[]]"
| "split_dash (c # cs) =
     (if c = CHR ''-'' then [] # split_dash cs
      else (case split_dash cs of
              [] \<Rightarrow> [[c]]
            | p # ps \<Rightarrow> (c # p) # ps))"

text \<open>\<open>fullName.split('-')[1]\<close>: the second piece, or \<open>undefined\<close>.\<close>

definition second_piece :: "string \<Rightarrow> js" where
  "second_piece fullName =
     (case tl (split_dash fullName) of [] \<Rightarrow> JUndefined | realm # _ \<Rightarrow> JStr realm)"

text \<open>
  The loop over \<open>charData.professions\<close>: reading \<open>prof.name\<close> throws for a \<open>null\<close>
  element; an element without a (truthy) name is skipped.
\<close>

fun parse_professions :: "js list \<Rightarrow> js_error + profession_data list" where
  "parse_professions [] = Inr []"
| "parse_professions (prof # profs) =
     (if nullish prof then Inl TypeError
      else (case parse_professions profs of
              Inl e \<Rightarrow> Inl e
            | Inr rest \<Rightarrow>
                Inr (if truthy (own_prop prof ''name'')
                     then \<lparr>prof_name = own_prop prof ''name'',
                           skillLevel = js_or (own_prop prof ''skill_level'') (JNum 0),
                           maxSkill = js_or (own_prop prof ''max_skill_level'') (JNum 525),
                           recipes = []\<rparr> # rest
                     else rest)))"

text \<open>
  \<open>parseScribeyCharacterFromJson\<close>: the first property read throws when \<open>charData\<close>
  is \<open>null\<close> or \<open>undefined\<close>, and the \<open>catch\<close> returns \<open>null\<close> for every throw.
  \<open>now\<close> is the clock that stamps \<open>lastUpdate\<close>.
\<close>

definition parseScribeyCharacterFromJson :: "int \<Rightarrow> string \<Rightarrow> js \<Rightarrow> character_data option" where
  "parseScribeyCharacterFromJson now fullName charData =
     (if nullish charData then None
      else
        (let characterName = js_or (own_prop charData ''character_name'')
                                   (JStr (hd (split_dash fullName)));
             realmName = js_or (js_or (own_prop charData ''realm_name'') (second_piece fullName))
                               (JStr ''Unknown'');
             wowClass = js_or (own_prop charData ''class'') (JStr ''WARRIOR'')
         in case (case own_prop charData ''professions'' of
                    JArr profs \<Rightarrow> parse_professions profs
                  | _ \<Rightarrow> Inr []) of
              Inl e \<Rightarrow> None
            | Inr profs \<Rightarrow>
                Some \<lparr>char_name = characterName, char_realm = realmName, cards = [],
                      professions = profs, char_class = wowClass, lastUpdate = now\<rparr>))"

text \<open>
  \<open>extractVersion\<close>: the first match of \<open>version\s*=\s*"([^"]+)"\<close> in the content,
  tried at every position from the left. White space is the one-byte part of
  JavaScript's \<open>\s\<close>.
\<close>

definition is_space :: "char \<Rightarrow> bool" where
  "is_space c = (c \<in> set [CHR 0x09, CHR 0x0A, CHR 0x0B, CHR 0x0C, CHR 0x0D, CHR 0x20, CHR 0xA0])"

definition match_version_at :: "string \<Rightarrow> string option" where
  "match_version_at s =
     (if take 7 s = ''version''
      then (case dropWhile is_space (drop 7 s) of
              [] \<Rightarrow> None
            | c # r \<Rightarrow>
                if c = CHR ''='' then
                  (case dropWhile is_space r of
                     [] \<Rightarrow> None
                   | q # t \<Rightarrow>
                       if q = CHR 0x22 \<and> takeWhile (\<lambda>x. x \<noteq> CHR 0x22) t \<noteq> []
                            \<and> dropWhile (\<lambda>x. x \<noteq> CHR 0x22) t \<noteq> []
                       then Some (takeWhile (\<lambda>x. x \<noteq> CHR 0x22) t) else None)
                else None)
      else None)"

fun extractVersion :: "string \<Rightarrow> string option" where
  "extractVersion [] = None"
| "extractVersion (c # cs) =
     (case match_version_at (c # cs) of
        Some v \<Rightarrow> Some v
      | None \<Rightarrow> extractVersion cs)"

text \<open>One entry of \<open>parseResults\<close>, the per-character ledger of \<open>parseLuaData\<close>.\<close>

record parse_result =
  fullCharacterName :: string
  rawCharData :: js
  parseSuccess :: bool
  parsedCharacter :: "character_data option"
  parse_error :: "string option"

text \<open>
  The loop over \<open>Object.entries(characterData)\<close>, with the two variables it
  updates: \<open>characters\<close> and \<open>parseResults\<close>. For a record, the log line that follows
  the assignment prints the name and the realm; when one of them does not convert,
  that throw is caught by the loop's \<open>catch\<close>, which notes its message in the row.
\<close>

fun parse_characters ::
  "int \<Rightarrow> (string \<times> js) list \<Rightarrow> (string \<times> character_data) list \<Rightarrow> parse_result list
     \<Rightarrow> (string \<times> character_data) list \<times> parse_result list" where
  "parse_characters now [] chars parseResults = (chars, parseResults)"
| "parse_characters now ((fullName, charData) # entries) chars parseResults =
     (case parseScribeyCharacterFromJson now fullName charData of
        Some character \<Rightarrow>
          parse_characters now entries (obj_assign chars fullName character)
            (parseResults @ [\<lparr>fullCharacterName = fullName, rawCharData = charData,
                               parseSuccess = True, parsedCharacter = Some character,
                               parse_error =
                                 (if convertible (char_name character)
                                     \<and> convertible (char_realm character)
                                  then None
                                  else Some ''Cannot convert object to primitive value'')\<rparr>])
      | None \<Rightarrow>
          parse_characters now entries chars
            (parseResults @ [\<lparr>fullCharacterName = fullName, rawCharData = charData,
                               parseSuccess = False, parsedCharacter = None,
                               parse_error = Some ''parseScribeyCharacterFromJson returned null''\<rparr>]))"

text \<open>
  \<open>parseLuaData\<close>. \<open>parse\<close> is the parser (\<open>None\<close> when it throws), \<open>now\<close> the clock.
  The result is the snapshot together with the ledger that the function hands to its
  debug output; \<open>None\<close> is the \<open>null\<close> of the two early returns and of the \<open>catch\<close>.
  The one log line that can throw is the one that prints
  \<open>auctionData.last_scan || 'never'\<close>, before the loop over the characters.
\<close>

definition parseLuaData ::
  "(string \<Rightarrow> ast option) \<Rightarrow> (string \<Rightarrow> js) \<Rightarrow> int \<Rightarrow> string
     \<Rightarrow> (addon_data \<times> parse_result list) option" where
  "parseLuaData parse strnum now content =
     (case parse content of
        None \<Rightarrow> None
      | Some ast \<Rightarrow>
          (let scribeyDB = extractScribeyDBFromAST strnum ast in
           if \<not> truthy scribeyDB then None
           else if \<not> truthy (own_prop scribeyDB ''character_data'') then None
           else
             (let characterData = js_or (own_prop scribeyDB ''character_data'') (JObj []);
                  auctionPrices = js_or (own_prop scribeyDB ''auction_prices'') (JObj [])
              in case object_entries characterData of
                   Inl e \<Rightarrow> None
                 | Inr entries \<Rightarrow>
                     (case (if truthy (own_prop auctionPrices ''data'')
                            then object_entries (own_prop auctionPrices ''data'')
                            else Inr []) of
                        Inl e \<Rightarrow> None
                      | Inr auctionEntries \<Rightarrow>
                          if \<not> convertible (js_or (own_prop auctionPrices ''last_scan'')
                                                   (JStr ''never''))
                          then None
                          else
                          (let (chars, parseResults) = parse_characters now entries [] []
                           in Some
                                (\<lparr>characters = chars,
                                  auctionData =
                                    \<lparr>lastScan = js_or (own_prop auctionPrices ''last_scan'') (JNum 0),
                                     scanCount = js_or (own_prop auctionPrices ''scan_count'') (JNum 0),
                                     auction_realm =
                                       js_or (own_prop auctionPrices ''realm'') (JStr ''Unknown''),
                                     itemCount = length auctionEntries,
                                     auction_items =
                                       js_or (own_prop auctionPrices ''data'') (JObj [])\<rparr>,
                                  craftedCards = js_or (own_prop scribeyDB ''crafted_cards'') (JObj []),
                                  settings = js_or (own_prop scribeyDB ''settings'') (JObj []),
                                  snapshot_timestamp = now,
                                  version = (case extractVersion content of
                                               Some v \<Rightarrow> v
                                             | None \<Rightarrow> ''1.0.0'')\<rparr>,
                                 parseResults))))))"

section \<open>The change detector (\<open>FileWatcher\<close>)\<close>

record watcher =
  lastFileContents :: "string \<rightharpoonup> string"
  uploadAttemptOf :: "string \<rightharpoonup> int"
  lastUpdate_of_watcher :: "int option"
  lastError :: "string option"

text \<open>What the event finds on disk: no file, a read that throws, or the content.\<close>

datatype file_read = Missing | ReadError string | Content string

text \<open>
  What one event set in motion: whether \<open>parseLuaData\<close> ran, and the snapshot handed
  to \<open>uploadData\<close> with its path, if any.
\<close>

record change_effects =
  parsed :: bool
  uploaded :: "(addon_data \<times> string) option"

definition UPLOAD_COOLDOWN :: int where
  "UPLOAD_COOLDOWN = 30000"

definition nothing_done :: change_effects where
  "nothing_done = \<lparr>parsed = False, uploaded = None\<rparr>"

text \<open>
  Before it calls \<open>uploadData\<close>, \<open>handleFileChange\<close> builds a summary of the
  snapshot, and two of its entries can throw: \<open>new Date(lastScan * 1000).toISOString()\<close>
  when the product is not a time value (at most \<open>8.64e15\<close> ms from the epoch), and
  the text \<open>name (skillLevel/maxSkill)\<close> of a profession when one of the three does
  not convert. \<open>summary_error\<close> is the message of the first throw, if any.
\<close>

definition time_value :: "(string \<Rightarrow> js) \<Rightarrow> js \<Rightarrow> bool" where
  "time_value strnum v =
     (case to_number strnum v of
        JNum n \<Rightarrow> \<bar>n * 1000\<bar> \<le> 8640000000000000
      | _ \<Rightarrow> False)"

definition profession_text_converts :: "profession_data \<Rightarrow> bool" where
  "profession_text_converts prof =
     (convertible (prof_name prof) \<and> convertible (skillLevel prof) \<and> convertible (maxSkill prof))"

definition summary_error :: "(string \<Rightarrow> js) \<Rightarrow> addon_data \<Rightarrow> string option" where
  "summary_error strnum addonData =
     (if \<not> convertible (lastScan (auctionData addonData))
      then Some ''Cannot convert object to primitive value''
      else if \<not> time_value strnum (lastScan (auctionData addonData))
      then Some ''Invalid time value''
      else if \<exists>(key, character) \<in> set (characters addonData).
                \<exists>prof \<in> set (professions character). \<not> profession_text_converts prof
      then Some ''Cannot convert object to primitive value''
      else None)"

text \<open>
  \<open>handleFileChange\<close>. \<open>autoUpload\<close> is the config provider's flag and \<open>now\<close> the
  clock of the event. \<open>uploadAttemptOf\<close> is the per-file map \<open>lastUploadAttempt\<close>;
  a missing or zero entry counts as 0. The path is stamped before the summary is
  built; a throw of the summary is caught, noted in \<open>lastError\<close>, and skips the call
  of \<open>uploadData\<close>.
\<close>

definition handleFileChange ::
  "(string \<Rightarrow> ast option) \<Rightarrow> (string \<Rightarrow> js) \<Rightarrow> bool \<Rightarrow> int \<Rightarrow> string \<Rightarrow> file_read \<Rightarrow> watcher
     \<Rightarrow> watcher \<times> change_effects" where
  "handleFileChange parse strnum autoUpload now path file s =
     (case file of
        Missing \<Rightarrow> (s, nothing_done)
      | ReadError message \<Rightarrow> (s\<lparr>lastError := Some message\<rparr>, nothing_done)
      | Content content \<Rightarrow>
          if lastFileContents s path = Some content then (s, nothing_done)
          else
            (let s1 = s\<lparr>lastFileContents := (lastFileContents s)(path \<mapsto> content),
                        lastUpdate_of_watcher := Some now\<rparr>;
                 lastUpload = (case uploadAttemptOf s1 path of Some t \<Rightarrow> t | None \<Rightarrow> 0)
             in if now - lastUpload < UPLOAD_COOLDOWN then (s1, nothing_done)
                else
                  (case parseLuaData parse strnum now content of
                     None \<Rightarrow> (s1, \<lparr>parsed = True, uploaded = None\<rparr>)
                   | Some (addonData, parseResults) \<Rightarrow>
                       if autoUpload
                       then
                         (let s2 = s1\<lparr>uploadAttemptOf := (uploadAttemptOf s1)(path \<mapsto> now)\<rparr>
                          in case summary_error strnum addonData of
                               Some message \<Rightarrow>
                                 (s2\<lparr>lastError := Some (''Upload failed: '' @ message)\<rparr>,
                                  \<lparr>parsed = True, uploaded = None\<rparr>)
                             | None \<Rightarrow>
                                 (s2, \<lparr>parsed = True, uploaded = Some (addonData, path)\<rparr>))
                       else (s1, \<lparr>parsed = True, uploaded = None\<rparr>))))"

text \<open>A run of events on one file, each with its clock and what it finds on disk.\<close>

fun handle_events ::
  "(string \<Rightarrow> ast option) \<Rightarrow> (string \<Rightarrow> js) \<Rightarrow> bool \<Rightarrow> string \<Rightarrow> (int \<times> file_read) list
     \<Rightarrow> watcher \<Rightarrow> watcher \<times> change_effects list" where
  "handle_events parse strnum autoUpload path [] s = (s, [])"
| "handle_events parse strnum autoUpload path ((now, file) # events) s =
     (let (s', e) = handleFileChange parse strnum autoUpload now path file s;
          (s'', es) = handle_events parse strnum autoUpload path events s'
      in (s'', e # es))"

section \<open>The config provider: per-character last-sync bookkeeping\<close>

record character_config =
  cfg_name :: string
  cfg_realm :: string
  cfg_enabled :: bool
  lastSync :: "int option"

text \<open>
  \<open>updateCharacterSync\<close>: \<open>characters.find\<close> returns the first entry whose name and
  realm both equal the arguments; only when there is one, its \<open>lastSync\<close> is assigned
  and the list is written back to the store. Without a match nothing is written.
\<close>

fun updateCharacterSync ::
  "string \<Rightarrow> string \<Rightarrow> int \<Rightarrow> character_config list \<Rightarrow> character_config list" where
  "updateCharacterSync name realm ts [] = []"
| "updateCharacterSync name realm ts (c # cs) =
     (if cfg_name c = name \<and> cfg_realm c = realm
      then c\<lparr>lastSync := Some ts\<rparr> # cs
      else c # updateCharacterSync name realm ts cs)"

section \<open>The upload queue (\<open>DataUploader\<close>)\<close>

record queue_item =
  item_data :: addon_data
  filePath :: string
  item_timestamp :: int

text \<open>
  The uploader's fields, together with the character list of the config store it writes
  to after a delivery.
\<close>

record uploader =
  uploadQueue :: "queue_item list"
  isUploading :: bool
  lastUploadAttempt :: int
  consecutiveFailures :: nat
  store_characters :: "character_config list"

text \<open>
  What \<open>httpClient.post\<close> settles to before the interceptors run: the transport either
  rejects (network error, timeout, or a status the client refuses) or fulfils with a
  response carrying a status code.
\<close>

datatype http_result = Rejected | Fulfilled nat

datatype upload_error = HttpError | UploadFailedWithStatus nat

text \<open>
  \<open>const [name, realm] = characterName.split('-')\<close> and the \<open>realm || 'Unknown'\<close> of
  the call: a missing or empty second piece becomes \<open>Unknown\<close>.
\<close>

definition sync_name :: "string \<Rightarrow> string" where
  "sync_name characterName = hd (split_dash characterName)"

definition sync_realm :: "string \<Rightarrow> string" where
  "sync_realm characterName =
     (case tl (split_dash characterName) of
        [] \<Rightarrow> ''Unknown''
      | realm # _ \<Rightarrow> (if realm = [] then ''Unknown'' else realm))"

definition sync_characters ::
  "int \<Rightarrow> string list \<Rightarrow> character_config list \<Rightarrow> character_config list" where
  "sync_characters ts keys cs =
     foldl (\<lambda>acc characterName.
              updateCharacterSync (sync_name characterName) (sync_realm characterName) ts acc)
           cs keys"

text \<open>
  \<open>uploadSingleItem\<close> with the two response interceptors inlined: a fulfilled response
  resets the failure counter, a rejection increments it and is rethrown. A fulfilled
  response whose status is not 200 throws after the reset. Only a 200 reaches the loop
  over \<open>Object.keys(item.data.characters)\<close>.
\<close>

definition uploadSingleItem ::
  "http_result \<Rightarrow> queue_item \<Rightarrow> uploader \<Rightarrow> (upload_error + unit) \<times> uploader" where
  "uploadSingleItem response item s =
     (case response of
        Rejected \<Rightarrow>
          (Inl HttpError, s\<lparr>consecutiveFailures := consecutiveFailures s + 1\<rparr>)
      | Fulfilled status \<Rightarrow>
          (let s1 = s\<lparr>consecutiveFailures := 0\<rparr> in
           if status \<noteq> 200 then (Inl (UploadFailedWithStatus status), s1)
           else (Inr (),
                 s1\<lparr>store_characters :=
                      sync_characters (item_timestamp item)
                        (map fst (characters (item_data item))) (store_characters s1)\<rparr>)))"

text \<open>
  One delivery attempt as the drain loop sees it, kept for the properties that count
  attempts: the item, the failure counter when the attempt started, and whether it
  was delivered.
\<close>

record attempt =
  att_item :: queue_item
  att_failures_before :: nat
  att_delivered :: bool

text \<open>
  The body of \<open>for (const item of batch)\<close>: the \<open>try\<close> around \<open>uploadSingleItem\<close> and
  the \<open>catch\<close> that puts the item back with \<open>unshift\<close> while the counter is below 5.
\<close>

definition upload_item :: "http_result \<Rightarrow> queue_item \<Rightarrow> uploader \<Rightarrow> uploader" where
  "upload_item response item s =
     (case uploadSingleItem response item s of
        (Inr _, s') \<Rightarrow> s'
      | (Inl _, s') \<Rightarrow>
          (if consecutiveFailures s' < 5
           then s'\<lparr>uploadQueue := item # uploadQueue s'\<rparr>
           else s'))"

text \<open>
  The loop over the batch. \<open>post i\<close> is what the transport answers to the \<open>i\<close>-th
  request of the cycle.
\<close>

fun upload_batch ::
  "(nat \<Rightarrow> http_result) \<Rightarrow> nat \<Rightarrow> queue_item list \<Rightarrow> uploader \<Rightarrow> uploader \<times> attempt list" where
  "upload_batch post i [] s = (s, [])"
| "upload_batch post i (item # batch) s =
     (let s' = upload_item (post i) item s;
          a = \<lparr>att_item = item, att_failures_before = consecutiveFailures s,
               att_delivered = (post i = Fulfilled 200)\<rparr>;
          (s'', log) = upload_batch post (Suc i) batch s'
      in (s'', a # log))"

datatype upload_response =
    Success
  | Processed nat
  | BackingOff
  | AddedToQueue

record drain_result =
  reply :: upload_response
  attempts :: "attempt list"
  rescheduled :: bool

text \<open>The guard of the backoff check, on the counter and the two clock values.\<close>

definition backing_off :: "nat \<Rightarrow> int \<Rightarrow> int \<Rightarrow> bool" where
  "backing_off failures now lastAttempt =
     (failures \<ge> 3 \<and> now - lastAttempt < min (int failures * 5000) 30000)"

text \<open>
  \<open>processUploadQueue\<close>. \<open>now\<close> is the clock read by the backoff check, \<open>stamp\<close> the
  clock read after the batch, when \<open>lastUploadAttempt\<close> is stamped. The \<open>finally\<close>
  block clears the busy flag and arms the one-second timer when items remain. A
  cycle is taken as one step; what \<open>uploadData\<close> appends while a request is awaited
  is covered by the properties of one loop iteration (\<open>upload_item\<close>), which hold for
  any queue.
\<close>

definition processUploadQueue ::
  "(nat \<Rightarrow> http_result) \<Rightarrow> int \<Rightarrow> int \<Rightarrow> uploader \<Rightarrow> uploader \<times> drain_result" where
  "processUploadQueue post now stamp s =
     (if isUploading s \<or> uploadQueue s = []
      then (s, \<lparr>reply = Success, attempts = [], rescheduled = False\<rparr>)
      else
        (let s1 = s\<lparr>isUploading := True\<rparr> in
         if backing_off (consecutiveFailures s1) now (lastUploadAttempt s1)
         then (s1\<lparr>isUploading := False\<rparr>,
               \<lparr>reply = BackingOff, attempts = [],
                rescheduled = (uploadQueue s1 \<noteq> [])\<rparr>)
         else
           (let batch = take 5 (uploadQueue s1);
                s2 = s1\<lparr>uploadQueue := drop 5 (uploadQueue s1)\<rparr>;
                (s3, log) = upload_batch post 0 batch s2;
                s4 = s3\<lparr>lastUploadAttempt := stamp\<rparr>
            in (s4\<lparr>isUploading := False\<rparr>,
                \<lparr>reply = Processed (length batch), attempts = log,
                 rescheduled = (uploadQueue s4 \<noteq> [])\<rparr>))))"

text \<open>
  \<open>uploadData\<close>: append the item (stamped with the clock \<open>queued\<close>) and start a drain
  unless one is running.
\<close>

definition uploadData ::
  "(nat \<Rightarrow> http_result) \<Rightarrow> int \<Rightarrow> int \<Rightarrow> int \<Rightarrow> addon_data \<Rightarrow> string \<Rightarrow> uploader
     \<Rightarrow> uploader \<times> drain_result" where
  "uploadData post queued now stamp addonData path s =
     (let s1 = s\<lparr>uploadQueue := uploadQueue s @
                  [\<lparr>item_data = addonData, filePath = path, item_timestamp = queued\<rparr>]\<rparr>
      in if \<not> isUploading s1 then processUploadQueue post now stamp s1
         else (s1, \<lparr>reply = AddedToQueue, attempts = [], rescheduled = False\<rparr>))"



text \<open>Small concrete values for the scenarios.\<close>

definition no_auction :: auction_data where
  "no_auction = \<lparr>lastScan = JNum 0, scanCount = JNum 0, auction_realm = JStr ''Unknown'',
                  itemCount = 0, auction_items = JObj []\<rparr>"

definition snapshot_of :: "(string \<times> character_data) list \<Rightarrow> addon_data" where
  "snapshot_of cs = \<lparr>characters = cs, auctionData = no_auction, craftedCards = JObj [],
                      settings = JObj [], snapshot_timestamp = 0, version = ''1.0.0''\<rparr>"


definition idle_uploader :: "queue_item list \<Rightarrow> nat \<Rightarrow> int \<Rightarrow> uploader" where
  "idle_uploader queue failures lastAttempt =
     \<lparr>uploadQueue = queue, isUploading = False, lastUploadAttempt = lastAttempt,
      consecutiveFailures = failures, store_characters = []\<rparr>"

definition plain_character :: "string \<Rightarrow> string \<Rightarrow> character_data" where
  "plain_character n r = \<lparr>char_name = JStr n, char_realm = JStr r, cards = [],
                           professions = [], char_class = JStr ''WARRIOR'', lastUpdate = 0\<rparr>"

definition configured :: "string \<Rightarrow> string \<Rightarrow> character_config" where
  "configured n r = \<lparr>cfg_name = n, cfg_realm = r, cfg_enabled = True, lastSync = None\<rparr>"

text \<open>
  The initialiser that an assignment statement binds to \<open>ScribeyDB\<close>, as the scan of
  the extraction entry point finds it: the one at the first position where the
  variable is that identifier and an initialiser exists. Other statements bind none.
\<close>

fun bound_init :: "ast list \<Rightarrow> ast list \<Rightarrow> ast option" where
  "bound_init [] init = None"
| "bound_init (variable # variables) init =
     (if variable = Identifier ''ScribeyDB''
      then (case init of [] \<Rightarrow> bound_init variables [] | init_i # _ \<Rightarrow> Some init_i)
      else bound_init variables (tl init))"

fun ScribeyDB_binding :: "ast \<Rightarrow> ast option" where
  "ScribeyDB_binding (AssignmentStatement variables init) = bound_init variables init"
| "ScribeyDB_binding statement = None"


definition upload_count :: "change_effects list \<Rightarrow> nat" where
  "upload_count es = length (filter (\<lambda>e. uploaded e \<noteq> None) es)"

definition idle_watcher :: "(string \<rightharpoonup> string) \<Rightarrow> (string \<rightharpoonup> int) \<Rightarrow> watcher" where
  "idle_watcher contents attempts_at =
     \<lparr>lastFileContents = contents, uploadAttemptOf = attempts_at,
      lastUpdate_of_watcher = None, lastError = None\<rparr>"

text \<open>
  The tree the parser builds for the table text of Scenario A,
  \<open>ScribeyDB = { character_data = { ["Foo-Bar"] = { character_name="Foo",
  realm_name="Bar", class="MAGE", professions={{name="Tailoring", skill_level=300,
  max_skill_level=300}} } } }\<close>. String literals come with a \<open>null\<close> value and their
  quoted source text, the case the decoder's first branch provides for.
\<close>

definition quoted :: "string \<Rightarrow> ast" where
  "quoted s = StringLiteral None (CHR 0x22 # s @ [CHR 0x22])"

definition scenario_A :: ast where
  "scenario_A =
     Chunk [AssignmentStatement [Identifier ''ScribeyDB'']
       [TableConstructorExpression
          [TableKeyString (Identifier ''character_data'')
             (TableConstructorExpression
                [TableKey (quoted ''Foo-Bar'')
                   (TableConstructorExpression
                      [TableKeyString (Identifier ''character_name'') (quoted ''Foo''),
                       TableKeyString (Identifier ''realm_name'') (quoted ''Bar''),
                       TableKeyString (Identifier ''class'') (quoted ''MAGE''),
                       TableKeyString (Identifier ''professions'')
                         (TableConstructorExpression
                            [TableValue (TableConstructorExpression
                               [TableKeyString (Identifier ''name'') (quoted ''Tailoring''),
                                TableKeyString (Identifier ''skill_level'') (NumericLiteral 300),
                                TableKeyString (Identifier ''max_skill_level'')
                                  (NumericLiteral 300)])])])])]]]"

text \<open>
  Scenario A with an empty name and a zero cap written out,
  \<open>ScribeyDB = { character_data = { ["Foo-Bar"] = { character_name="",
  realm_name="Bar", class="MAGE", professions={{name="Tailoring", skill_level=300,
  max_skill_level=0}} } } }\<close>.
\<close>

definition scenario_A_blank :: ast where
  "scenario_A_blank =
     Chunk [AssignmentStatement [Identifier ''ScribeyDB'']
       [TableConstructorExpression
          [TableKeyString (Identifier ''character_data'')
             (TableConstructorExpression
                [TableKey (quoted ''Foo-Bar'')
                   (TableConstructorExpression
                      [TableKeyString (Identifier ''character_name'') (quoted []),
                       TableKeyString (Identifier ''realm_name'') (quoted ''Bar''),
                       TableKeyString (Identifier ''class'') (quoted ''MAGE''),
                       TableKeyString (Identifier ''professions'')
                         (TableConstructorExpression
                            [TableValue (TableConstructorExpression
                               [TableKeyString (Identifier ''name'') (quoted ''Tailoring''),
                                TableKeyString (Identifier ''skill_level'') (NumericLiteral 300),
                                TableKeyString (Identifier ''max_skill_level'')
                                  (NumericLiteral 0)])])])])]]]"

text \<open>
  The tree for Scenario C, \<open>ScribeyDB = { character_data = { ["Good-R"] = { class =
  "MAGE" }, ["Bad-R"] = nil, ["Fine-R"] = { class = "ROGUE" } } }\<close>: the middle entry
  is not a table.
\<close>

definition scenario_C :: ast where
  "scenario_C =
     Chunk [AssignmentStatement [Identifier ''ScribeyDB'']
       [TableConstructorExpression
          [TableKeyString (Identifier ''character_data'')
             (TableConstructorExpression
                [TableKey (quoted ''Good-R'')
                   (TableConstructorExpression
                      [TableKeyString (Identifier ''class'') (quoted ''MAGE'')]),
                 TableKey (quoted ''Bad-R'') NilLiteral,
                 TableKey (quoted ''Fine-R'')
                   (TableConstructorExpression
                      [TableKeyString (Identifier ''class'') (quoted ''ROGUE'')])])]]]"

text \<open>The professions that the loop of the extractor keeps, each with its defaults.\<close>

definition extracted_professions :: "js list \<Rightarrow> profession_data list" where
  "extracted_professions ps =
     map (\<lambda>p. \<lparr>prof_name = own_prop p ''name'',
                skillLevel = js_or (own_prop p ''skill_level'') (JNum 0),
                maxSkill = js_or (own_prop p ''max_skill_level'') (JNum 525),
                recipes = []\<rparr>)
         (filter (\<lambda>p. truthy (own_prop p ''name'')) ps)"

text \<open>
  What every value built by the decoder satisfies: the own properties of each object
  in it have distinct names.
\<close>

fun proper :: "js \<Rightarrow> bool" where
  "proper (JArr xs) = (\<forall>x \<in> set xs. proper x)"
| "proper (JObj kvs) = (distinct (map fst kvs) \<and> (\<forall>(k, v) \<in> set kvs. proper v))"
| "proper v = True"

text \<open>The entries that stay in front of a new array index \<open>i\<close>.\<close>

definition before_index :: "nat \<Rightarrow> string \<times> 'a \<Rightarrow> bool" where
  "before_index i e = (case array_index (fst e) of Some j \<Rightarrow> j < i | None \<Rightarrow> False)"

section \<open>Properties of the table decoder\<close>

lemma obj_set_empty: "obj_set [] k v = [(k, v)]"
  by (simp add: obj_set_def split: option.splits)

text \<open>A keyed field whose value is \<open>nil\<close> is kept, with \<open>null\<close> as its value.\<close>

lemma keyed_nil_is_kept:
  "luaAstToJson strnum (TableConstructorExpression [TableKey (quoted k) NilLiteral]) =
     Inr (JObj [(k, JNull)])"
  by (simp add: quoted_def first_field_keyed_def destructure_key_value_def get_prop_def
        nullish_def internal_table_key_def obj_from_entries_def obj_set_empty)

text \<open>
  A keyed field after a positional first field comes out as the pair of its key and
  value, in its place in the array.
\<close>

lemma later_keyed_field_is_a_pair:
  "luaAstToJson strnum
     (TableConstructorExpression
        [TableValue (NumericLiteral 5), TableKey (quoted ''a'') (NumericLiteral 1)]) =
     Inr (JArr [JNum 5, JArr [JStr ''a'', JNum 1]])"
  by (simp add: quoted_def first_field_keyed_def destructure_key_value_def array_element_def
        get_prop_def nullish_def internal_table_key_def)

text \<open>
  C6. The claim says that a table constructor whose first field has no key reduces
  to the array of its fields' reduced values in order. The code does not when a
  positional field is \<open>nil\<close>: the reduced value is \<open>null\<close>, and the test
  \<open>value.__internal_table_key\<close> reads a property of it, which throws. The table
  \<open>{ "a", nil }\<close> therefore does not reduce to an array but ends the whole reduction
  with a \<open>TypeError\<close>, whereas the keyed path keeps a \<open>nil\<close> value
  (\<open>keyed_nil_is_kept\<close>).
\<close>

theorem positional_nil_throws:
  "luaAstToJson strnum
     (TableConstructorExpression [TableValue (quoted ''a''), TableValue NilLiteral]) =
     Inl TypeError"
  by (simp add: quoted_def first_field_keyed_def array_element_def get_prop_def nullish_def)

subsection \<open>Objects built by the decoder have distinct property names\<close>

lemma proper_own_prop: "proper v \<Longrightarrow> proper (own_prop v p)"
  by (cases v) (auto split: option.splits dest: map_of_SomeD)

lemma insert_index_split:
  "insert_index i k v obj =
     takeWhile (before_index i) obj @ (k, v) # dropWhile (before_index i) obj"
  by (induction obj) (auto simp: before_index_def split: option.splits)

lemma set_insert_index: "set (insert_index i k v obj) = insert (k, v) (set obj)"
proof -
  have "set obj = set (takeWhile (before_index i) obj @ dropWhile (before_index i) obj)"
    by simp
  then show ?thesis
    unfolding insert_index_split by (simp only: set_append set_simps) auto
qed

lemma distinct_insert_index:
  assumes "distinct (map fst obj)" and "k \<notin> set (map fst obj)"
  shows "distinct (map fst (insert_index i k v obj))"
proof -
  let ?t = "takeWhile (before_index i) obj" and ?d = "dropWhile (before_index i) obj"
  have obj: "obj = ?t @ ?d" by simp
  have "distinct (map fst (?t @ ?d))" using assms(1) by simp
  moreover have "k \<notin> set (map fst (?t @ ?d))" using assms(2) by simp
  ultimately show ?thesis
    unfolding insert_index_split by (simp only: map_append list.map distinct_append
          distinct.simps set_append set_simps fst_conv) auto
qed

lemma fst_replace:
  "map fst (map (\<lambda>(k', v'). if k' = k then (k', v) else (k', v')) obj) = map fst obj"
  by (induction obj) auto

lemma set_replace:
  "e \<in> set (map (\<lambda>(k', v'). if k' = k then (k', v) else (k', v')) obj) \<Longrightarrow>
   e \<in> set obj \<or> snd e = v"
  by (induction obj) (auto split: if_splits)

lemma distinct_obj_set:
  assumes "distinct (map fst obj)"
  shows "distinct (map fst (obj_set obj k v))"
proof (cases "k \<in> set (map fst obj)")
  case True
  then show ?thesis using assms by (simp only: obj_set_def if_True fst_replace)
next
  case False
  then show ?thesis using assms
    by (cases "array_index k") (simp_all add: obj_set_def distinct_insert_index del: set_map)
qed

lemma values_obj_set:
  assumes "e \<in> set (obj_set obj k v)"
  shows "e \<in> set obj \<or> snd e = v"
proof (cases "k \<in> set (map fst obj)")
  case True
  then show ?thesis using assms set_replace[of e k v obj] by (simp only: obj_set_def if_True)
next
  case False
  then show ?thesis using assms
    by (cases "array_index k") (auto simp: obj_set_def set_insert_index simp del: set_map)
qed

lemma proper_obj_set:
  assumes "proper (JObj obj)" and "proper v"
  shows "proper (JObj (obj_set obj k v))"
proof -
  have "\<And>e. e \<in> set (obj_set obj k v) \<Longrightarrow> proper (snd e)"
  proof -
    fix e assume "e \<in> set (obj_set obj k v)"
    from values_obj_set[OF this] show "proper (snd e)"
      using assms by auto
  qed
  then show ?thesis using assms(1) by (auto simp: distinct_obj_set simp del: set_map)
qed



lemma proper_obj_assign:
  "proper (JObj obj) \<Longrightarrow> proper v \<Longrightarrow> proper (JObj (obj_assign obj k v))"
  using proper_obj_set[of obj v k] by (simp add: obj_assign_def)

lemma proper_foldl_obj_set:
  "proper (JObj acc) \<Longrightarrow> \<forall>(k, v) \<in> set pairs. proper v \<Longrightarrow>
   proper (JObj (foldl (\<lambda>obj (k, v). obj_set obj (js_to_string k) v) acc pairs))"
proof (induction pairs arbitrary: acc)
  case Nil
  then show ?case by simp
next
  case (Cons e pairs)
  obtain k v where e: "e = (k, v)" by (cases e)
  from Cons.prems have "proper v" and rest: "\<forall>(k, v) \<in> set pairs. proper v"
    by (auto simp: e)
  from proper_obj_set[OF Cons.prems(1) this(1)] have "proper (JObj (obj_set acc (js_to_string k) v))" .
  from Cons.IH[OF this rest] show ?case by (simp add: e)
qed

lemma proper_obj_from_entries:
  "\<forall>(k, v) \<in> set pairs. proper v \<Longrightarrow> proper (JObj (obj_from_entries pairs))"
  unfolding obj_from_entries_def by (rule proper_foldl_obj_set) simp_all

lemma proper_js_negate: "proper (js_negate strnum v)"
  by (simp add: js_negate_def split: js.splits)

lemma proper_internal_table_key:
  "proper k \<Longrightarrow> proper v \<Longrightarrow> proper (internal_table_key k v)"
  by (simp add: internal_table_key_def)

lemma proper_destructure:
  "proper r \<Longrightarrow> destructure_key_value r = Inr (k, v) \<Longrightarrow> proper k \<and> proper v"
  by (auto simp: destructure_key_value_def get_prop_def proper_own_prop split: if_splits)

lemma proper_array_element:
  "proper v \<Longrightarrow> array_element v = Inr w \<Longrightarrow> proper w"
  by (auto simp: array_element_def destructure_key_value_def get_prop_def proper_own_prop
           split: if_splits)

lemma map_throw_set:
  "map_throw f xs = Inr ys \<Longrightarrow> y \<in> set ys \<Longrightarrow> \<exists>x \<in> set xs. f x = Inr y"
  by (induction xs arbitrary: ys) (auto split: sum.splits)

lemma proper_one_or_all: "\<forall>v \<in> set vals. proper v \<Longrightarrow> proper (one_or_all vals)"
  by (auto simp: one_or_all_def split: list.splits)

lemma proper_assign:
  "\<forall>x \<in> set init. \<forall>v. luaAstToJson strnum x = Inr v \<longrightarrow> proper v \<Longrightarrow>
   proper (JObj result) \<Longrightarrow> assign strnum variables init result = Inr r \<Longrightarrow>
   proper (JObj r)"
proof (induction variables arbitrary: init result)
  case Nil
  then show ?case by simp
next
  case (Cons variable variables)
  show ?case
  proof (cases init)
    case Nil
    with Cons.prems show ?thesis by simp
  next
    case (Cons initValue rest)
    have rest: "\<forall>x \<in> set rest. \<forall>v. luaAstToJson strnum x = Inr v \<longrightarrow> proper v"
      using Cons.prems(1) Cons by simp
    show ?thesis
    proof (cases "\<exists>name. variable = Identifier name")
      case True
      then obtain name where name: "variable = Identifier name" by blast
      with Cons.prems(3) Cons obtain v where
        v: "luaAstToJson strnum initValue = Inr v"
        and r: "assign strnum variables rest (obj_assign result name v) = Inr r"
        by (auto split: sum.splits)
      have "proper v" using Cons.prems(1) Cons v by simp
      from Cons.IH[OF rest proper_obj_assign[OF Cons.prems(2) this] r] show ?thesis .
    next
      case False
      then have "assign strnum variables rest result = Inr r"
        using Cons.prems(3) Cons by (cases variable) auto
      from Cons.IH[OF rest Cons.prems(2) this] show ?thesis .
    qed
  qed
qed

lemma luaAstToJson_proper:
  "luaAstToJson strnum ast = Inr v \<Longrightarrow> proper v"
proof (induction ast arbitrary: v)
  case (UnaryExpression operator argument)
  then show ?case by (auto simp: proper_js_negate split: if_splits sum.splits)
next
  case (TableKey k val)
  then show ?case by (auto simp: proper_internal_table_key split: sum.splits)
next
  case (TableKeyString k val)
  then show ?case by (auto simp: proper_internal_table_key split: sum.splits)
next
  case (TableConstructorExpression fields)
  show ?case
  proof (cases "first_field_keyed fields")
    case True
    with TableConstructorExpression.prems obtain pairs where
      pairs: "map_throw (\<lambda>field. case luaAstToJson strnum field of
                                     Inl e \<Rightarrow> Inl e
                                   | Inr r \<Rightarrow> destructure_key_value r) fields = Inr pairs"
      and v: "v = (if length (map fst (obj_from_entries pairs)) = 0 then JArr []
                   else JObj (obj_from_entries pairs))"
      by (auto simp: Let_def split: sum.splits if_splits)
    have "\<forall>(k, w) \<in> set pairs. proper w"
    proof (intro ballI, clarify)
      fix k w assume "(k, w) \<in> set pairs"
      from map_throw_set[OF pairs this] obtain field where
        field: "field \<in> set fields"
        and eq: "(case luaAstToJson strnum field of
                    Inl e \<Rightarrow> Inl e
                  | Inr r \<Rightarrow> destructure_key_value r) = Inr (k, w)"
        by auto
      from eq obtain r where
        "luaAstToJson strnum field = Inr r" "destructure_key_value r = Inr (k, w)"
        by (cases "luaAstToJson strnum field") auto
      note this = field this
      with TableConstructorExpression.IH[of field r] proper_destructure[of r k w]
      show "proper w" by simp
    qed
    from proper_obj_from_entries[OF this] show ?thesis by (simp add: v)
  next
    case False
    with TableConstructorExpression.prems obtain vals where
      vals: "map_throw (\<lambda>field. case luaAstToJson strnum field of
                                    Inl e \<Rightarrow> Inl e
                                  | Inr v \<Rightarrow> array_element v) fields = Inr vals"
      and v: "v = JArr vals"
      by (auto split: sum.splits)
    have "\<forall>w \<in> set vals. proper w"
    proof
      fix w assume "w \<in> set vals"
      from map_throw_set[OF vals this] obtain field where
        field: "field \<in> set fields"
        and eq: "(case luaAstToJson strnum field of
                    Inl e \<Rightarrow> Inl e
                  | Inr r \<Rightarrow> array_element r) = Inr w"
        by auto
      from eq obtain r where
        "luaAstToJson strnum field = Inr r" "array_element r = Inr w"
        by (cases "luaAstToJson strnum field") auto
      note this = field this
      with TableConstructorExpression.IH[of field r] proper_array_element[of r w]
      show "proper w" by simp
    qed
    then show ?thesis by (simp add: v)
  qed
next
  case (LocalStatement init)
  then obtain vals where vals: "map_throw (luaAstToJson strnum) init = Inr vals"
    and v: "v = one_or_all vals"
    by (auto split: sum.splits)
  have "\<forall>w \<in> set vals. proper w"
    using map_throw_set[OF vals] LocalStatement.IH by blast
  then show ?case by (simp add: v proper_one_or_all)
next
  case (ReturnStatement arguments)
  then obtain vals where vals: "map_throw (luaAstToJson strnum) arguments = Inr vals"
    and v: "v = one_or_all vals"
    by (auto split: sum.splits)
  have "\<forall>w \<in> set vals. proper w"
    using map_throw_set[OF vals] ReturnStatement.IH by blast
  then show ?case by (simp add: v proper_one_or_all)
next
  case (Chunk body)
  then show ?case by (cases body) auto
next
  case (AssignmentStatement variables init)
  then obtain r where r: "assign strnum variables init [] = Inr r" and v: "v = JObj r"
    by (auto split: sum.splits)
  have "\<forall>x \<in> set init. \<forall>v. luaAstToJson strnum x = Inr v \<longrightarrow> proper v"
    using AssignmentStatement.IH(2) by blast
  from proper_assign[OF this _ r] show ?case by (simp add: v)
qed auto

section \<open>Properties of the extraction entry point\<close>

lemma scan_variables_bound_init:
  "scan_variables strnum variables init =
     map_option (luaAstToJson strnum) (bound_init variables init)"
  by (induction variables init rule: bound_init.induct) (auto split: list.splits)

lemma scan_statements_no_binding:
  "\<forall>st \<in> set body. ScribeyDB_binding st = None \<Longrightarrow>
   scan_statements strnum (body @ rest) = scan_statements strnum rest"
proof (induction body)
  case Nil
  then show ?case by simp
next
  case (Cons st body)
  then show ?case
    by (cases st) (auto simp: scan_variables_bound_init)
qed

lemma scan_statements_binding:
  "ScribeyDB_binding st = Some init \<Longrightarrow>
   scan_statements strnum (st # rest) = luaAstToJson strnum init"
  by (cases st) (auto simp: scan_variables_bound_init)

lemma extract_proper: "proper (extractScribeyDBFromAST strnum ast)"
proof (cases ast)
  case (Chunk body)
  have "scan_statements strnum body = Inr v \<Longrightarrow> proper v" for v
  proof (induction body)
    case Nil
    then show ?case by auto
  next
    case (Cons st body)
    then show ?case
      by (cases st) (auto simp: scan_variables_bound_init luaAstToJson_proper split: option.splits)
  qed
  then show ?thesis
    by (auto simp: extractScribeyDBFromAST_def Chunk split: sum.splits)
qed (simp_all add: extractScribeyDBFromAST_def)

lemma character_data_distinct:
  "own_prop (extractScribeyDBFromAST strnum ast) ''character_data'' = JObj entries \<Longrightarrow>
   distinct (map fst entries)"
  using proper_own_prop[OF extract_proper[of strnum ast], of "''character_data''"]
  by simp

text \<open>
  C9. When no statement before it binds \<open>ScribeyDB\<close> and a statement does, the entry
  point returns the reduction of that statement's initialiser (\<open>null\<close> if reducing it
  throws), whatever statements follow: later assignments to the name are ignored.
  When no top-level statement binds the name, it returns \<open>null\<close>.
\<close>

theorem first_ScribeyDB_assignment_wins:
  "((\<forall>st \<in> set before. ScribeyDB_binding st = None) \<and> ScribeyDB_binding statement = Some init \<longrightarrow>
      extractScribeyDBFromAST strnum (Chunk (before @ statement # after)) =
        (case luaAstToJson strnum init of Inl e \<Rightarrow> JNull | Inr v \<Rightarrow> v)) \<and>
   ((\<forall>st \<in> set body. ScribeyDB_binding st = None) \<longrightarrow>
      extractScribeyDBFromAST strnum (Chunk body) = JNull)"
  using scan_statements_no_binding[of before strnum "statement # after"]
    scan_statements_binding[of statement init strnum after]
    scan_statements_no_binding[of body strnum "[]"]
  by (auto simp: extractScribeyDBFromAST_def)

text \<open>
  A local statement, then \<open>ScribeyDB = { a = 1 }\<close>, then \<open>ScribeyDB = { b = 2 }\<close>: the
  first table is returned. A file with the local statement alone gives \<open>null\<close>.
\<close>

theorem first_ScribeyDB_assignment_wins_witness:
  "extractScribeyDBFromAST (\<lambda>_. JNaN)
     (Chunk ([LocalStatement [NumericLiteral 0]] @
             AssignmentStatement [Identifier ''ScribeyDB'']
               [TableConstructorExpression
                  [TableKeyString (Identifier ''a'') (NumericLiteral 1)]] #
             [AssignmentStatement [Identifier ''ScribeyDB'']
                [TableConstructorExpression
                   [TableKeyString (Identifier ''b'') (NumericLiteral 2)]]]))
     = JObj [(''a'', JNum 1)] \<and>
   extractScribeyDBFromAST (\<lambda>_. JNaN) (Chunk [LocalStatement [NumericLiteral 0]]) = JNull"
  using first_ScribeyDB_assignment_wins
    [of "[LocalStatement [NumericLiteral 0]]"
        "AssignmentStatement [Identifier ''ScribeyDB'']
           [TableConstructorExpression [TableKeyString (Identifier ''a'') (NumericLiteral 1)]]"
        "TableConstructorExpression [TableKeyString (Identifier ''a'') (NumericLiteral 1)]"
        "\<lambda>_. JNaN"
        "[AssignmentStatement [Identifier ''ScribeyDB'']
            [TableConstructorExpression [TableKeyString (Identifier ''b'') (NumericLiteral 2)]]]"
        "[LocalStatement [NumericLiteral 0]]"]
  by (simp add: first_field_keyed_def destructure_key_value_def get_prop_def nullish_def
        internal_table_key_def obj_from_entries_def obj_set_empty)

section \<open>Properties of the domain extractor\<close>

lemma split_dash_not_Nil: "split_dash s \<noteq> []"
  by (induction s) (auto split: list.splits)


lemma hd_split_dash: "hd (split_dash s) = takeWhile (\<lambda>c. c \<noteq> CHR ''-'') s"
  by (induction s) (auto split: list.splits simp: split_dash_not_Nil)


lemma tl_split_dash:
  "tl (split_dash s) = (case dropWhile (\<lambda>c. c \<noteq> CHR ''-'') s of [] \<Rightarrow> [] | d # r \<Rightarrow> split_dash r)"
proof (induction s)
  case Nil
  show ?case by simp
next
  case (Cons c s)
  show ?case
  proof (cases "c = CHR ''-''")
    case True
    then show ?thesis by simp
  next
    case False
    obtain p ps where sp: "split_dash s = p # ps"
      using split_dash_not_Nil[of s] by (cases "split_dash s") auto
    show ?thesis using Cons False by (simp add: sp)
  qed
qed

lemma second_piece_eq:
  "second_piece s = (case dropWhile (\<lambda>c. c \<noteq> CHR ''-'') s of
                       [] \<Rightarrow> JUndefined
                     | d # r \<Rightarrow> JStr (takeWhile (\<lambda>c. c \<noteq> CHR ''-'') r))"
proof (cases "dropWhile (\<lambda>c. c \<noteq> CHR ''-'') s")
  case Nil
  show ?thesis unfolding second_piece_def tl_split_dash Nil by simp
next
  case (Cons d r)
  obtain p ps where sp: "split_dash r = p # ps"
    using split_dash_not_Nil[of r] by (cases "split_dash r") auto
  have "p = takeWhile (\<lambda>c. c \<noteq> CHR ''-'') r"
    using hd_split_dash[of r] sp by simp
  then show ?thesis unfolding second_piece_def tl_split_dash Cons by (simp add: sp)
qed


lemma realm_from_key:
  "js_or (second_piece s) (JStr ''Unknown'') =
     (let piece = takeWhile (\<lambda>x. x \<noteq> CHR ''-'') (drop 1 (dropWhile (\<lambda>x. x \<noteq> CHR ''-'') s))
      in if piece = [] then JStr ''Unknown'' else JStr piece)"
proof (cases "dropWhile (\<lambda>x. x \<noteq> CHR ''-'') s")
  case Nil
  show ?thesis unfolding second_piece_eq Nil by (simp add: js_or_def)
next
  case (Cons d r)
  show ?thesis unfolding second_piece_eq Cons by (simp add: js_or_def Let_def)
qed


lemma parse_professions_objects:
  "\<forall>p \<in> set ps. \<not> nullish p \<Longrightarrow>
   parse_professions ps =
     Inr (map (\<lambda>p. \<lparr>prof_name = own_prop p ''name'',
                     skillLevel = js_or (own_prop p ''skill_level'') (JNum 0),
                     maxSkill = js_or (own_prop p ''max_skill_level'') (JNum 525),
                     recipes = []\<rparr>)
            (filter (\<lambda>p. truthy (own_prop p ''name'')) ps))"
  by (induction ps) auto

lemma parse_professions_null:
  "\<exists>p \<in> set ps. nullish p \<Longrightarrow> parse_professions ps = Inl TypeError"
proof (induction ps)
  case Nil
  then show ?case by simp
next
  case (Cons a ps)
  show ?case
  proof (cases "nullish a")
    case True
    then show ?thesis by simp
  next
    case False
    then have "\<exists>p \<in> set ps. nullish p" using Cons.prems by auto
    from Cons.IH[OF this] False show ?thesis by simp
  qed
qed

lemma professions_loop:
  assumes "\<forall>ps. own_prop charData ''professions'' = JArr ps \<longrightarrow> (\<forall>p \<in> set ps. \<not> nullish p)"
  shows "(case own_prop charData ''professions'' of
            JArr ps \<Rightarrow> parse_professions ps | _ \<Rightarrow> Inr []) =
         Inr (case own_prop charData ''professions'' of
                JArr ps \<Rightarrow> extracted_professions ps
              | _ \<Rightarrow> [])"
proof (cases "own_prop charData ''professions''")
  case (JArr ps)
  have "\<forall>p \<in> set ps. \<not> nullish p" using assms JArr by simp
  from parse_professions_objects[OF this] JArr show ?thesis
    by (simp add: extracted_professions_def)
qed simp_all

lemma js_or_JUndefined: "js_or JUndefined b = b"
  by (simp add: js_or_def)

lemma js_or_truthy: "truthy a \<Longrightarrow> js_or a b = a"
  by (simp add: js_or_def)

lemma js_or_twice: "js_or (js_or a b) c = (if truthy a then a else js_or b c)"
  by (simp add: js_or_def)

lemma character_of_entry:
  assumes "\<not> nullish charData"
    and "\<forall>ps. own_prop charData ''professions'' = JArr ps \<longrightarrow> (\<forall>p \<in> set ps. \<not> nullish p)"
  shows "parseScribeyCharacterFromJson now fullName charData =
     Some \<lparr>char_name = js_or (own_prop charData ''character_name'')
                            (JStr (hd (split_dash fullName))),
           char_realm = js_or (js_or (own_prop charData ''realm_name'') (second_piece fullName))
                              (JStr ''Unknown''),
           cards = [],
           professions = (case own_prop charData ''professions'' of
                            JArr ps \<Rightarrow> extracted_professions ps
                          | _ \<Rightarrow> []),
           char_class = js_or (own_prop charData ''class'') (JStr ''WARRIOR''),
           lastUpdate = now\<rparr>"
  using assms(1)
  by (simp only: parseScribeyCharacterFromJson_def Let_def professions_loop[OF assms(2)]
        simp_thms if_False sum.case)

lemma character_fields:
  assumes "\<not> nullish charData"
    and "\<forall>ps. own_prop charData ''professions'' = JArr ps \<longrightarrow> (\<forall>p \<in> set ps. \<not> nullish p)"
  shows "parseScribeyCharacterFromJson now fullName charData =
     Some \<lparr>char_name = (if truthy (own_prop charData ''character_name'')
                        then own_prop charData ''character_name''
                        else JStr (takeWhile (\<lambda>x. x \<noteq> CHR ''-'') fullName)),
           char_realm = (if truthy (own_prop charData ''realm_name'')
                         then own_prop charData ''realm_name''
                         else let piece = takeWhile (\<lambda>x. x \<noteq> CHR ''-'')
                                            (drop 1 (dropWhile (\<lambda>x. x \<noteq> CHR ''-'') fullName))
                              in if piece = [] then JStr ''Unknown'' else JStr piece),
           cards = [],
           professions =
             (case own_prop charData ''professions'' of
                JArr ps \<Rightarrow>
                  map (\<lambda>p. \<lparr>prof_name = own_prop p ''name'',
                             skillLevel = (if truthy (own_prop p ''skill_level'')
                                           then own_prop p ''skill_level'' else JNum 0),
                             maxSkill = (if truthy (own_prop p ''max_skill_level'')
                                         then own_prop p ''max_skill_level'' else JNum 525),
                             recipes = []\<rparr>)
                      (filter (\<lambda>p. truthy (own_prop p ''name'')) ps)
              | _ \<Rightarrow> []),
           char_class = (if truthy (own_prop charData ''class'')
                         then own_prop charData ''class'' else JStr ''WARRIOR''),
           lastUpdate = now\<rparr>"
  unfolding character_of_entry[OF assms] js_or_twice realm_from_key
  by (cases "own_prop charData ''professions''")
     (simp_all add: hd_split_dash extracted_professions_def js_or_def)

lemma character_of_nothing:
  assumes "nullish charData \<or>
           (\<exists>ps. own_prop charData ''professions'' = JArr ps \<and> (\<exists>p \<in> set ps. nullish p))"
  shows "parseScribeyCharacterFromJson now fullName charData = None"
proof (cases "nullish charData")
  case True
  then show ?thesis by (simp add: parseScribeyCharacterFromJson_def)
next
  case False
  then obtain ps where ps: "own_prop charData ''professions'' = JArr ps" "\<exists>p \<in> set ps. nullish p"
    using assms by auto
  from parse_professions_null[OF ps(2)] ps(1) False show ?thesis
    by (simp add: parseScribeyCharacterFromJson_def Let_def)
qed

lemma scenario_A_snapshot:
  "parse content = Some scenario_A \<Longrightarrow>
   map_option (characters \<circ> fst) (parseLuaData parse strnum now content) =
     Some [(''Foo-Bar'',
            \<lparr>char_name = JStr ''Foo'', char_realm = JStr ''Bar'', cards = [],
             professions = [\<lparr>prof_name = JStr ''Tailoring'', skillLevel = JNum 300,
                             maxSkill = JNum 300, recipes = []\<rparr>],
             char_class = JStr ''MAGE'', lastUpdate = now\<rparr>)]"
  by (simp add: parseLuaData_def scenario_A_def extractScribeyDBFromAST_def quoted_def
        first_field_keyed_def destructure_key_value_def array_element_def get_prop_def
        nullish_def internal_table_key_def obj_from_entries_def obj_set_def obj_assign_def
        array_index_def js_or_def parseScribeyCharacterFromJson_def second_piece_def Let_def)

text \<open>
  C7, as the claim states it, fails for a field that is present but holds a value
  JavaScript counts as false. In the table of Scenario A with \<open>character_name=""\<close>
  and \<open>max_skill_level=0\<close>, the decoded entry has both fields, with the values
  written; yet the extracted name is \<open>Foo\<close>, the piece of the key, not the explicit
  field, and the extracted \<open>maxSkill\<close> is 525, not the 0 of the entry.
\<close>

theorem blank_name_and_zero_cap_are_replaced:
  "own_prop (own_prop (extractScribeyDBFromAST (\<lambda>_. JNaN) scenario_A_blank) ''character_data'')
     ''Foo-Bar'' =
     JObj [(''character_name'', JStr []), (''realm_name'', JStr ''Bar''),
           (''class'', JStr ''MAGE''),
           (''professions'',
            JArr [JObj [(''name'', JStr ''Tailoring''), (''skill_level'', JNum 300),
                        (''max_skill_level'', JNum 0)]])] \<and>
   map_option (characters \<circ> fst)
     (parseLuaData (\<lambda>_. Some scenario_A_blank) (\<lambda>_. JNaN) 7 []) =
     Some [(''Foo-Bar'',
            \<lparr>char_name = JStr ''Foo'', char_realm = JStr ''Bar'', cards = [],
             professions = [\<lparr>prof_name = JStr ''Tailoring'', skillLevel = JNum 300,
                             maxSkill = JNum 525, recipes = []\<rparr>],
             char_class = JStr ''MAGE'', lastUpdate = 7\<rparr>)]"
  by (simp add: parseLuaData_def scenario_A_blank_def extractScribeyDBFromAST_def quoted_def
        first_field_keyed_def destructure_key_value_def array_element_def get_prop_def
        nullish_def internal_table_key_def obj_from_entries_def obj_set_def obj_assign_def
        array_index_def js_or_def parseScribeyCharacterFromJson_def second_piece_def Let_def)

text \<open>
  C7 (amended). Whatever the character entry is, provided it is neither \<open>null\<close> nor
  \<open>undefined\<close> and no element of its \<open>professions\<close> array is, extraction yields a
  record in which:
  the name is the \<open>character_name\<close> field when that field holds a value JavaScript
  counts as true (a non-empty string), and otherwise (the field is absent, or is
  empty, zero, \<open>false\<close> or \<open>null\<close>; an absent field reads as \<open>undefined\<close>) the
  piece of the map key before its first dash;
  the realm is the \<open>realm_name\<close> field on the same condition, and otherwise the piece
  of the key between its first and second dash, or \<open>Unknown\<close> when that piece is
  missing or empty;
  the class is the \<open>class\<close> field on the same condition, and otherwise \<open>WARRIOR\<close>;
  the professions are the elements of the \<open>professions\<close> array whose \<open>name\<close> counts
  as true, in order (none when the field is not an array), each with
  its \<open>skill_level\<close> and \<open>max_skill_level\<close> when they count as true and
  otherwise with \<open>skillLevel\<close> 0 and \<open>maxSkill\<close> 525.
  An entry that is \<open>null\<close> or \<open>undefined\<close>, or has such an element in its
  \<open>professions\<close> array, yields no record.
  For the table text of Scenario A the snapshot's characters are exactly the one
  record of the scenario under the key \<open>Foo-Bar\<close>.
\<close>

theorem character_extraction_fallbacks:
  "(\<not> nullish charData \<and>
    (\<forall>ps. own_prop charData ''professions'' = JArr ps \<longrightarrow> (\<forall>p \<in> set ps. \<not> nullish p)) \<longrightarrow>
    parseScribeyCharacterFromJson now fullName charData =
      Some \<lparr>char_name = (if truthy (own_prop charData ''character_name'')
                         then own_prop charData ''character_name''
                         else JStr (takeWhile (\<lambda>x. x \<noteq> CHR ''-'') fullName)),
            char_realm = (if truthy (own_prop charData ''realm_name'')
                          then own_prop charData ''realm_name''
                          else let piece = takeWhile (\<lambda>x. x \<noteq> CHR ''-'')
                                             (drop 1 (dropWhile (\<lambda>x. x \<noteq> CHR ''-'') fullName))
                               in if piece = [] then JStr ''Unknown'' else JStr piece),
            cards = [],
            professions =
              (case own_prop charData ''professions'' of
                 JArr ps \<Rightarrow>
                   map (\<lambda>p. \<lparr>prof_name = own_prop p ''name'',
                              skillLevel = (if truthy (own_prop p ''skill_level'')
                                            then own_prop p ''skill_level'' else JNum 0),
                              maxSkill = (if truthy (own_prop p ''max_skill_level'')
                                          then own_prop p ''max_skill_level'' else JNum 525),
                              recipes = []\<rparr>)
                       (filter (\<lambda>p. truthy (own_prop p ''name'')) ps)
               | _ \<Rightarrow> []),
            char_class = (if truthy (own_prop charData ''class'')
                          then own_prop charData ''class'' else JStr ''WARRIOR''),
            lastUpdate = now\<rparr>) \<and>
   (nullish charData \<or>
    (\<exists>ps. own_prop charData ''professions'' = JArr ps \<and> (\<exists>p \<in> set ps. nullish p)) \<longrightarrow>
    parseScribeyCharacterFromJson now fullName charData = None) \<and>
   (parse content = Some scenario_A \<longrightarrow>
      map_option (characters \<circ> fst) (parseLuaData parse strnum now' content) =
        Some [(''Foo-Bar'',
               \<lparr>char_name = JStr ''Foo'', char_realm = JStr ''Bar'', cards = [],
                professions = [\<lparr>prof_name = JStr ''Tailoring'', skillLevel = JNum 300,
                                maxSkill = JNum 300, recipes = []\<rparr>],
                char_class = JStr ''MAGE'', lastUpdate = now'\<rparr>)])"
  using character_fields[of charData now fullName]
    character_of_nothing[of charData now fullName]
    scenario_A_snapshot[of parse content strnum now']
  by (intro conjI impI) (elim conjE, assumption+)

text \<open>
  Three entries under the key \<open>Foo-Bar\<close>. The first has an empty name, no realm and no
  class, and a professions array of one entry named Mining without levels, one entry
  with a zero cap and one entry without a name: every fallback applies. The second
  has all its fields, and they are taken. The third holds a \<open>null\<close> among its
  professions and yields no record. And Scenario A, with a parser that answers with
  the scenario's tree.
\<close>

theorem character_extraction_fallbacks_witness:
  "parseScribeyCharacterFromJson 7 ''Foo-Bar''
     (JObj [(''character_name'', JStr []),
            (''professions'', JArr [JObj [(''name'', JStr ''Mining'')],
                                    JObj [(''name'', JStr ''Herbalism''),
                                          (''skill_level'', JNum 12),
                                          (''max_skill_level'', JNum 0)],
                                    JObj [(''skill_level'', JNum 5)]])]) =
     Some \<lparr>char_name = JStr ''Foo'', char_realm = JStr ''Bar'', cards = [],
           professions = [\<lparr>prof_name = JStr ''Mining'', skillLevel = JNum 0,
                           maxSkill = JNum 525, recipes = []\<rparr>,
                          \<lparr>prof_name = JStr ''Herbalism'', skillLevel = JNum 12,
                           maxSkill = JNum 525, recipes = []\<rparr>],
           char_class = JStr ''WARRIOR'', lastUpdate = 7\<rparr> \<and>
   parseScribeyCharacterFromJson 7 ''Foo-Bar''
     (JObj [(''character_name'', JStr ''Main''), (''realm_name'', JStr ''Home''),
            (''class'', JStr ''DRUID'')]) =
     Some \<lparr>char_name = JStr ''Main'', char_realm = JStr ''Home'', cards = [],
           professions = [], char_class = JStr ''DRUID'', lastUpdate = 7\<rparr> \<and>
   parseScribeyCharacterFromJson 7 ''Foo-Bar''
     (JObj [(''professions'', JArr [JObj [(''name'', JStr ''Mining'')], JNull])]) = None \<and>
   map_option (characters \<circ> fst) (parseLuaData (\<lambda>_. Some scenario_A) (\<lambda>_. JNaN) 7 []) =
     Some [(''Foo-Bar'',
            \<lparr>char_name = JStr ''Foo'', char_realm = JStr ''Bar'', cards = [],
             professions = [\<lparr>prof_name = JStr ''Tailoring'', skillLevel = JNum 300,
                             maxSkill = JNum 300, recipes = []\<rparr>],
             char_class = JStr ''MAGE'', lastUpdate = 7\<rparr>)]"
  using character_extraction_fallbacks
    [where charData = "JObj [(''character_name'', JStr []),
            (''professions'', JArr [JObj [(''name'', JStr ''Mining'')],
                                    JObj [(''name'', JStr ''Herbalism''),
                                          (''skill_level'', JNum 12),
                                          (''max_skill_level'', JNum 0)],
                                    JObj [(''skill_level'', JNum 5)]])]"
       and now = 7 and fullName = "''Foo-Bar''" and parse = "\<lambda>_. Some scenario_A"
       and content = "[]" and strnum = "\<lambda>_. JNaN" and now' = 7]
    character_extraction_fallbacks
    [where charData = "JObj [(''character_name'', JStr ''Main''), (''realm_name'', JStr ''Home''),
            (''class'', JStr ''DRUID'')]"
       and now = 7 and fullName = "''Foo-Bar''" and parse = "\<lambda>_. Some scenario_A"
       and content = "[]" and strnum = "\<lambda>_. JNaN" and now' = 7]
    character_extraction_fallbacks
    [where charData = "JObj [(''professions'', JArr [JObj [(''name'', JStr ''Mining'')], JNull])]"
       and now = 7 and fullName = "''Foo-Bar''" and parse = "\<lambda>_. Some scenario_A"
       and content = "[]" and strnum = "\<lambda>_. JNaN" and now' = 7]
  by (simp add: nullish_def)


lemma map_of_replace_at:
  "map_of (map (\<lambda>(k', v'). if k' = k then (k', v) else (k', v')) obj) x =
     (if x = k then map_option (\<lambda>_. v) (map_of obj k) else map_of obj x)"
  by (induction obj) auto

lemma map_of_replace:
  assumes "k \<in> set (map fst obj)"
  shows "map_of (map (\<lambda>(k', v'). if k' = k then (k', v) else (k', v')) obj) = (map_of obj)(k \<mapsto> v)"
proof -
  from assms obtain w where "map_of obj k = Some w"
    using map_of_eq_None_iff[of obj k] by (cases "map_of obj k") auto
  then show ?thesis
    by (intro ext) (simp add: map_of_replace_at)
qed

lemma map_of_insert_index:
  "k \<notin> set (map fst obj) \<Longrightarrow> map_of (insert_index i k v obj) = (map_of obj)(k \<mapsto> v)"
proof (induction obj)
  case Nil
  then show ?case by simp
next
  case (Cons e obj)
  obtain k' v' where e: "e = (k', v')" by (cases e)
  from Cons show ?case
    by (cases "array_index k'") (auto simp: e fun_eq_iff)
qed

lemma map_of_obj_set: "map_of (obj_set obj k v) = (map_of obj)(k \<mapsto> v)"
proof (cases "k \<in> set (map fst obj)")
  case True
  then show ?thesis by (simp add: obj_set_def map_of_replace del: set_map)
next
  case False
  then have "map_of obj k = None" by (simp add: map_of_eq_None_iff)
  then have "map_of (obj @ [(k, v)]) = (map_of obj)(k \<mapsto> v)"
    by (auto simp: fun_eq_iff map_add_def split: option.splits)
  with False show ?thesis
    by (cases "array_index k") (simp_all add: obj_set_def map_of_insert_index del: set_map)
qed

lemma parse_characters_ledger_names:
  "map fullCharacterName (snd (parse_characters now entries chars ledger)) =
   map fullCharacterName ledger @ map fst entries"
  by (induction entries arbitrary: chars ledger) (auto split: option.splits)

lemma parse_characters_ledger_grows:
  "r \<in> set ledger \<Longrightarrow> r \<in> set (snd (parse_characters now entries chars ledger))"
  by (induction entries arbitrary: chars ledger) (auto split: option.splits)

lemma parse_characters_ledger_entry:
  "(k, v) \<in> set entries \<Longrightarrow>
   \<exists>r \<in> set (snd (parse_characters now entries chars ledger)).
      fullCharacterName r = k \<and> rawCharData r = v \<and>
      parsedCharacter r = parseScribeyCharacterFromJson now k v \<and>
      parseSuccess r = (parseScribeyCharacterFromJson now k v \<noteq> None) \<and>
      (parseScribeyCharacterFromJson now k v = None \<longrightarrow> parse_error r \<noteq> None)"
proof (induction entries arbitrary: chars ledger)
  case Nil
  then show ?case by simp
next
  case (Cons e entries)
  obtain k' v' where e: "e = (k', v')" by (cases e)
  show ?case
  proof (cases "(k, v) = e")
    case True
    then have kv: "k' = k" "v' = v" using e by auto
    show ?thesis
    proof (cases "parseScribeyCharacterFromJson now k v")
      case None
      let ?r = "\<lparr>fullCharacterName = k, rawCharData = v, parseSuccess = False,
                 parsedCharacter = None,
                 parse_error = Some ''parseScribeyCharacterFromJson returned null''\<rparr>"
      have "?r \<in> set (snd (parse_characters now entries chars (ledger @ [?r])))"
        by (rule parse_characters_ledger_grows) simp
      then show ?thesis using None by (auto simp: e kv intro!: bexI[of _ ?r])
    next
      case (Some c)
      let ?r = "\<lparr>fullCharacterName = k, rawCharData = v, parseSuccess = True,
                 parsedCharacter = Some c,
                 parse_error = (if convertible (char_name c) \<and> convertible (char_realm c)
                                then None
                                else Some ''Cannot convert object to primitive value'')\<rparr>"
      have "?r \<in> set (snd (parse_characters now entries (obj_assign chars k c) (ledger @ [?r])))"
        by (rule parse_characters_ledger_grows) simp
      then show ?thesis using Some
        by (intro bexI[of _ ?r]) (simp_all add: e kv)
    qed
  next
    case False
    with Cons.prems have "(k, v) \<in> set entries" by auto
    from Cons.IH[OF this] show ?thesis
      by (auto simp: e split: option.splits)
  qed
qed

lemma parse_characters_lookup:
  "distinct (map fst entries) \<Longrightarrow> k \<noteq> ''__proto__'' \<Longrightarrow>
   map_of (fst (parse_characters now entries chars ledger)) k =
     (case map_of entries k of
        None \<Rightarrow> map_of chars k
      | Some v \<Rightarrow> (case parseScribeyCharacterFromJson now k v of
                     None \<Rightarrow> map_of chars k
                   | Some c \<Rightarrow> Some c))"
proof (induction entries arbitrary: chars ledger)
  case Nil
  then show ?case by simp
next
  case (Cons e entries)
  obtain k' v' where e: "e = (k', v')" by (cases e)
  from Cons.prems have d: "distinct (map fst entries)" and nk: "map_of entries k' = None"
    by (auto simp: e map_of_eq_None_iff)
  show ?case
  proof (cases "parseScribeyCharacterFromJson now k' v'")
    case None
    then show ?thesis using Cons.IH[OF d Cons.prems(2)] nk
      by (auto simp: e split: option.splits)
  next
    case (Some c)
    then show ?thesis using Cons.IH[OF d Cons.prems(2)] nk Cons.prems(2)
      by (auto simp: e obj_assign_def map_of_obj_set split: option.splits)
  qed
qed

lemma parse_characters_no_record:
  "\<forall>(k', v) \<in> set entries. k' = k \<longrightarrow> parseScribeyCharacterFromJson now k v = None \<Longrightarrow>
   map_of (fst (parse_characters now entries chars ledger)) k = map_of chars k"
proof (induction entries arbitrary: chars ledger)
  case Nil
  then show ?case by simp
next
  case (Cons e entries)
  obtain k' v' where e: "e = (k', v')" by (cases e)
  from Cons.prems have rest:
    "\<forall>(k', v) \<in> set entries. k' = k \<longrightarrow> parseScribeyCharacterFromJson now k v = None"
    by auto
  show ?case
  proof (cases "parseScribeyCharacterFromJson now k' v'")
    case None
    then show ?thesis using Cons.IH[OF rest] by (simp add: e)
  next
    case (Some c)
    with Cons.prems have "k' \<noteq> k" by (auto simp: e)
    then show ?thesis using Cons.IH[OF rest] Some
      by (simp add: e obj_assign_def map_of_obj_set)
  qed
qed

lemma object_entries_truthy: "truthy v \<Longrightarrow> \<exists>es. object_entries v = Inr es"
  by (cases v) auto

lemma last_scan_prints:
  "convertible (own_prop (own_prop db ''auction_prices'') ''last_scan'') \<Longrightarrow>
   convertible (js_or (own_prop (js_or (own_prop db ''auction_prices'') (JObj [])) ''last_scan'')
                      (JStr ''never''))"
  by (cases "truthy (own_prop db ''auction_prices'')") (simp_all add: js_or_def)

lemma parseLuaData_characters:
  assumes "parse content = Some ast"
    and "own_prop (extractScribeyDBFromAST strnum ast) ''character_data'' = JObj entries"
    and "convertible (own_prop (own_prop (extractScribeyDBFromAST strnum ast)
                                  ''auction_prices'') ''last_scan'')"
  shows "\<exists>snapshot. parseLuaData parse strnum now content =
            Some (snapshot, snd (parse_characters now entries [] [])) \<and>
          characters snapshot = fst (parse_characters now entries [] [])"
proof -
  let ?db = "extractScribeyDBFromAST strnum ast"
  have db: "truthy ?db" using assms(2) by (cases ?db) auto
  let ?auction = "js_or (own_prop ?db ''auction_prices'') (JObj [])"
  obtain es where es:
    "(if truthy (own_prop ?auction ''data'') then object_entries (own_prop ?auction ''data'')
      else Inr []) = Inr es"
    using object_entries_truthy[of "own_prop ?auction ''data''"]
    by (cases "truthy (own_prop ?auction ''data'')") auto
  show ?thesis
    by (simp add: parseLuaData_def assms(1,2) Let_def db js_or_def[of "JObj entries"] es
          last_scan_prints[OF assms(3)] split: prod.splits)
qed

text \<open>
  An entry that is not a map need not fail: a string has no fields, so every
  fallback applies and the entry yields a record of defaults.
\<close>

lemma string_entry_gets_defaults:
  "parseScribeyCharacterFromJson now ''Foo-Bar'' (JStr ''oops'') =
     Some \<lparr>char_name = JStr ''Foo'', char_realm = JStr ''Bar'', cards = [], professions = [],
           char_class = JStr ''WARRIOR'', lastUpdate = now\<rparr>"
  by (simp add: parseScribeyCharacterFromJson_def nullish_def js_or_def second_piece_def)

text \<open>
  C5. Let the decoded root map hold a map under \<open>character_data\<close> (and let the
  \<open>last_scan\<close> of its auction section, if it has one, be a value that can be
  printed). Then extraction
  returns a snapshot and a ledger with one row per character key, in order. For
  every entry whose extraction yields no record, a row of the ledger records the
  failure with its error and the key is absent from the snapshot, and for every entry
  whose extraction yields a record, that record is in the snapshot under its key and
  the ledger records the success: no entry affects another, and none aborts the loop.
  An entry that is \<open>null\<close> is such a failure. (The one key under which JavaScript
  stores no property, \<open>__proto__\<close>, is set aside.)
\<close>

theorem extraction_failures_isolated:
  assumes "parse content = Some ast"
    and "own_prop (extractScribeyDBFromAST strnum ast) ''character_data'' = JObj entries"
    and "convertible (own_prop (own_prop (extractScribeyDBFromAST strnum ast)
                                  ''auction_prices'') ''last_scan'')"
  shows "\<exists>snapshot ledger.
           parseLuaData parse strnum now content = Some (snapshot, ledger) \<and>
           map fullCharacterName ledger = map fst entries \<and>
           (\<forall>(k, v) \<in> set entries.
              (parseScribeyCharacterFromJson now k v = None \<longrightarrow>
                 (\<exists>r \<in> set ledger. fullCharacterName r = k \<and> \<not> parseSuccess r \<and>
                                     parse_error r \<noteq> None) \<and>
                 map_of (characters snapshot) k = None) \<and>
              (\<forall>c. parseScribeyCharacterFromJson now k v = Some c \<longrightarrow>
                 (\<exists>r \<in> set ledger. fullCharacterName r = k \<and> parseSuccess r \<and>
                                     parsedCharacter r = Some c) \<and>
                 (k \<noteq> ''__proto__'' \<longrightarrow> map_of (characters snapshot) k = Some c))) \<and>
           (\<forall>k. parseScribeyCharacterFromJson now k JNull = None)"
proof -
  have keys: "distinct (map fst entries)"
    using assms(2) by (rule character_data_distinct)
  from parseLuaData_characters[where parse = parse and content = content, OF assms]
  obtain snapshot where
    res: "parseLuaData parse strnum now content =
            Some (snapshot, snd (parse_characters now entries [] []))"
    and chars: "characters snapshot = fst (parse_characters now entries [] [])"
    by blast
  let ?ledger = "snd (parse_characters now entries [] [])"
  have names: "map fullCharacterName ?ledger = map fst entries"
    by (simp add: parse_characters_ledger_names)
  have each: "\<forall>(k, v) \<in> set entries.
              (parseScribeyCharacterFromJson now k v = None \<longrightarrow>
                 (\<exists>r \<in> set ?ledger. fullCharacterName r = k \<and> \<not> parseSuccess r \<and>
                                     parse_error r \<noteq> None) \<and>
                 map_of (characters snapshot) k = None) \<and>
              (\<forall>c. parseScribeyCharacterFromJson now k v = Some c \<longrightarrow>
                 (\<exists>r \<in> set ?ledger. fullCharacterName r = k \<and> parseSuccess r \<and>
                                     parsedCharacter r = Some c) \<and>
                 (k \<noteq> ''__proto__'' \<longrightarrow> map_of (characters snapshot) k = Some c))"
  proof (intro ballI, clarify)
    fix k v assume kv: "(k, v) \<in> set entries"
    then have look: "map_of entries k = Some v" using keys by simp
    from parse_characters_ledger_entry[OF kv, of now "[]" "[]"] obtain r where
      r: "r \<in> set ?ledger" "fullCharacterName r = k"
         "parsedCharacter r = parseScribeyCharacterFromJson now k v"
         "parseSuccess r = (parseScribeyCharacterFromJson now k v \<noteq> None)"
         "parseScribeyCharacterFromJson now k v = None \<longrightarrow> parse_error r \<noteq> None"
      by auto
    have only: "\<And>v'. (k, v') \<in> set entries \<Longrightarrow> v' = v"
      using keys kv by (meson eq_key_imp_eq_value)
    have absent: "parseScribeyCharacterFromJson now k v = None \<Longrightarrow>
                  map_of (characters snapshot) k = None"
    proof -
      assume none: "parseScribeyCharacterFromJson now k v = None"
      have "\<forall>(k', v') \<in> set entries. k' = k \<longrightarrow> parseScribeyCharacterFromJson now k v' = None"
        using only none by auto
      from parse_characters_no_record[OF this, of "[]" "[]"] show ?thesis
        by (simp add: chars)
    qed
    have present: "\<And>c. parseScribeyCharacterFromJson now k v = Some c \<Longrightarrow> k \<noteq> ''__proto__'' \<Longrightarrow>
                   map_of (characters snapshot) k = Some c"
      unfolding chars by (simp add: parse_characters_lookup[OF keys] look)
    show "(parseScribeyCharacterFromJson now k v = None \<longrightarrow>
                 (\<exists>r \<in> set ?ledger. fullCharacterName r = k \<and> \<not> parseSuccess r \<and>
                                     parse_error r \<noteq> None) \<and>
                 map_of (characters snapshot) k = None) \<and>
              (\<forall>c. parseScribeyCharacterFromJson now k v = Some c \<longrightarrow>
                 (\<exists>r \<in> set ?ledger. fullCharacterName r = k \<and> parseSuccess r \<and>
                                     parsedCharacter r = Some c) \<and>
                 (k \<noteq> ''__proto__'' \<longrightarrow> map_of (characters snapshot) k = Some c))"
      using r absent present by auto
  qed
  have null: "\<forall>k. parseScribeyCharacterFromJson now k JNull = None"
    by (simp add: parseScribeyCharacterFromJson_def nullish_def)
  show ?thesis
    by (intro exI[of _ snapshot] exI[of _ ?ledger] conjI res names each null)
qed

text \<open>
  Scenario C: of the three entries the middle one is \<open>nil\<close>. The snapshot holds the
  other two, and the ledger has three rows, the middle one a failure.
\<close>

theorem extraction_failures_isolated_witness:
  "map_option (\<lambda>(snapshot, ledger). (map fst (characters snapshot),
                                       map fullCharacterName ledger, map parseSuccess ledger))
     (parseLuaData (\<lambda>_. Some scenario_C) (\<lambda>_. JNaN) 7 []) =
   Some ([''Good-R'', ''Fine-R''], [''Good-R'', ''Bad-R'', ''Fine-R''], [True, False, True])"
  using extraction_failures_isolated
    [of "\<lambda>_. Some scenario_C" "[]" scenario_C "\<lambda>_. JNaN"
        "[(''Good-R'', JObj [(''class'', JStr ''MAGE'')]), (''Bad-R'', JNull),
          (''Fine-R'', JObj [(''class'', JStr ''ROGUE'')])]" 7]
  by (simp add: parseLuaData_def scenario_C_def extractScribeyDBFromAST_def quoted_def
        first_field_keyed_def destructure_key_value_def get_prop_def
        nullish_def internal_table_key_def obj_from_entries_def obj_set_def obj_assign_def
        array_index_def js_or_def parseScribeyCharacterFromJson_def second_piece_def Let_def)

section \<open>Properties of the change detector\<close>


lemma handleFileChange_caches_content:
  "lastFileContents (fst (handleFileChange parse strnum autoUpload now path (Content content) s)) path
     = Some content"
  by (auto simp: handleFileChange_def Let_def split: option.splits)

lemma handleFileChange_cooldown:
  assumes "uploadAttemptOf s path = Some t" and "now - t < 30000"
  shows "snd (handleFileChange parse strnum autoUpload now path file s) = nothing_done \<and>
         uploadAttemptOf (fst (handleFileChange parse strnum autoUpload now path file s))
           = uploadAttemptOf s"
  using assms
  by (cases "file") (auto simp: handleFileChange_def Let_def UPLOAD_COOLDOWN_def)

lemma handleFileChange_upload_stamps:
  "uploaded (snd (handleFileChange parse strnum autoUpload now path file s)) \<noteq> None \<Longrightarrow>
   uploadAttemptOf (fst (handleFileChange parse strnum autoUpload now path file s)) path = Some now"
  by (cases "file")
     (auto simp: handleFileChange_def Let_def nothing_done_def split: option.splits if_splits)


lemma two_events_one_upload:
  assumes "t2 - t1 < 30000"
  shows "upload_count (snd (handle_events parse strnum autoUpload path [(t1, f1), (t2, f2)] s)) \<le> 1"
proof -
  obtain s1 e1 where h1: "handleFileChange parse strnum autoUpload t1 path f1 s = (s1, e1)"
    by (cases "handleFileChange parse strnum autoUpload t1 path f1 s")
  obtain s2 e2 where h2: "handleFileChange parse strnum autoUpload t2 path f2 s1 = (s2, e2)"
    by (cases "handleFileChange parse strnum autoUpload t2 path f2 s1")
  have "uploaded e1 \<noteq> None \<Longrightarrow> uploaded e2 = None"
  proof -
    assume "uploaded e1 \<noteq> None"
    then have "uploadAttemptOf s1 path = Some t1"
      using handleFileChange_upload_stamps[of parse strnum autoUpload t1 path f1 s] h1 by simp
    from handleFileChange_cooldown[OF this assms, of parse strnum autoUpload f2] h2
    show ?thesis by (simp add: nothing_done_def)
  qed
  then show ?thesis
    by (auto simp: h1 h2 upload_count_def)
qed





text \<open>
  C4. A change event that arrives less than 30 seconds after the path's last
  recorded upload attempt parses nothing and hands nothing to the uploader, leaves
  the recorded attempt as it is, and leaves the event's content as the cached content
  of the path. Consequently two events on a path less than 30 seconds apart hand at
  most one snapshot to the uploader.
\<close>

theorem cooldown_skips_upload_but_caches:
  "(uploadAttemptOf s path = Some t \<and> now - t < 30000 \<longrightarrow>
      snd (handleFileChange parse strnum autoUpload now path (Content content) s) = nothing_done \<and>
      lastFileContents (fst (handleFileChange parse strnum autoUpload now path (Content content) s))
        path = Some content \<and>
      uploadAttemptOf (fst (handleFileChange parse strnum autoUpload now path (Content content) s))
        = uploadAttemptOf s) \<and>
   (t2 - t1 < 30000 \<longrightarrow>
      upload_count (snd (handle_events parse strnum autoUpload path [(t1, f1), (t2, f2)] s0)) \<le> 1)"
  using handleFileChange_cooldown[of s path t now parse strnum autoUpload "Content content"]
    handleFileChange_caches_content[of parse strnum autoUpload now path content s]
    two_events_one_upload[of t2 t1 parse strnum autoUpload path f1 f2 s0]
  by simp

text \<open>
  Uploaded at 100000, changed at 110000: nothing is parsed and the new content is
  cached. Two changes of a fresh file at 200000 and 210000: the first is handed to the
  uploader, the second is not.
\<close>

theorem cooldown_skips_upload_but_caches_witness:
  "snd (handleFileChange (\<lambda>_. Some scenario_A) (\<lambda>_. JNaN) True 110000 ''f'' (Content ''new'')
          (idle_watcher [''f'' \<mapsto> ''old''] [''f'' \<mapsto> 100000])) = nothing_done \<and>
   lastFileContents
     (fst (handleFileChange (\<lambda>_. Some scenario_A) (\<lambda>_. JNaN) True 110000 ''f'' (Content ''new'')
             (idle_watcher [''f'' \<mapsto> ''old''] [''f'' \<mapsto> 100000]))) ''f'' = Some ''new'' \<and>
   upload_count (snd (handle_events (\<lambda>_. Some scenario_A) (\<lambda>_. JNaN) True ''f''
      [(200000, Content ''one''), (210000, Content ''two'')]
      (idle_watcher Map.empty Map.empty))) \<le> 1"
  using cooldown_skips_upload_but_caches
    [of "idle_watcher [''f'' \<mapsto> ''old''] [''f'' \<mapsto> 100000]" "''f''" 100000 110000
        "\<lambda>_. Some scenario_A" "\<lambda>_. JNaN" True "''new''" 210000 200000
        "Content ''one''" "Content ''two''" "idle_watcher Map.empty Map.empty"]
  by (simp add: idle_watcher_def del: handle_events.simps)


section \<open>Properties of the config provider\<close>

lemma updateCharacterSync_no_match:
  "\<forall>c \<in> set cs. \<not> (cfg_name c = name \<and> cfg_realm c = realm) \<Longrightarrow>
   updateCharacterSync name realm ts cs = cs"
  by (induction cs) auto

lemma updateCharacterSync_touches_lastSync_only:
  "map (\<lambda>c. c\<lparr>lastSync := x\<rparr>) (updateCharacterSync name realm ts cs) =
   map (\<lambda>c. c\<lparr>lastSync := x\<rparr>) cs"
  by (induction cs) auto

lemma sync_characters_no_match:
  "\<forall>k \<in> set keys. \<forall>c \<in> set cs. \<not> (cfg_name c = sync_name k \<and> cfg_realm c = sync_realm k) \<Longrightarrow>
   sync_characters ts keys cs = cs"
  unfolding sync_characters_def
  by (induction keys) (auto simp: updateCharacterSync_no_match)

lemma find_updateCharacterSync_same:
  "List.find (\<lambda>c. cfg_name c = n \<and> cfg_realm c = r) (updateCharacterSync n r ts cs) =
   map_option (\<lambda>c. c\<lparr>lastSync := Some ts\<rparr>)
     (List.find (\<lambda>c. cfg_name c = n \<and> cfg_realm c = r) cs)"
  by (induction cs) auto

lemma find_updateCharacterSync_other:
  "\<not> (n' = n \<and> r' = r) \<Longrightarrow>
   List.find (\<lambda>c. cfg_name c = n' \<and> cfg_realm c = r') (updateCharacterSync n r ts cs) =
   List.find (\<lambda>c. cfg_name c = n' \<and> cfg_realm c = r') cs"
  by (induction cs) auto

text \<open>
  After the loop over the keys, the first store entry for a pair of name and realm
  carries the timestamp exactly when one of the keys splits into that pair.
\<close>

lemma find_sync_characters:
  "List.find (\<lambda>c. cfg_name c = n' \<and> cfg_realm c = r') (sync_characters ts keys cs) =
   (if \<exists>k \<in> set keys. sync_name k = n' \<and> sync_realm k = r'
    then map_option (\<lambda>c. c\<lparr>lastSync := Some ts\<rparr>)
           (List.find (\<lambda>c. cfg_name c = n' \<and> cfg_realm c = r') cs)
    else List.find (\<lambda>c. cfg_name c = n' \<and> cfg_realm c = r') cs)"
  unfolding sync_characters_def
proof (induction keys arbitrary: cs)
  case Nil
  then show ?case by simp
next
  case (Cons k keys)
  show ?case
  proof (cases "sync_name k = n' \<and> sync_realm k = r'")
    case True
    then show ?thesis
      by (simp add: Cons.IH find_updateCharacterSync_same option.map_comp comp_def)
  next
    case False
    then have step:
      "List.find (\<lambda>c. cfg_name c = n' \<and> cfg_realm c = r')
         (updateCharacterSync (sync_name k) (sync_realm k) ts cs) =
       List.find (\<lambda>c. cfg_name c = n' \<and> cfg_realm c = r') cs"
      by (intro find_updateCharacterSync_other) auto
    have "(\<exists>k' \<in> set (k # keys). sync_name k' = n' \<and> sync_realm k' = r') =
          (\<exists>k' \<in> set keys. sync_name k' = n' \<and> sync_realm k' = r')"
      using False by auto
    then show ?thesis
      by (simp only: foldl_Cons Cons.IH step)
  qed
qed

text \<open>
  C10. \<open>updateCharacterSync\<close> changes the stored list only when a configured character
  has exactly the given name and realm: without such an entry the list is returned as
  it is, and in every case the result has the same entries up to their \<open>lastSync\<close>
  (nothing is added or removed). Hence a successful delivery of a snapshot none of
  whose keys names a configured character leaves the store's list unchanged.
\<close>

theorem updateCharacterSync_only_configured:
  "((\<forall>c \<in> set cs. \<not> (cfg_name c = name \<and> cfg_realm c = realm)) \<longrightarrow>
      updateCharacterSync name realm ts cs = cs) \<and>
   length (updateCharacterSync name realm ts cs) = length cs \<and>
   map (\<lambda>c. c\<lparr>lastSync := None\<rparr>) (updateCharacterSync name realm ts cs) =
     map (\<lambda>c. c\<lparr>lastSync := None\<rparr>) cs \<and>
   ((\<forall>k \<in> set (map fst (characters (item_data item))). \<forall>c \<in> set (store_characters s).
        \<not> (cfg_name c = sync_name k \<and> cfg_realm c = sync_realm k)) \<longrightarrow>
      store_characters (snd (uploadSingleItem (Fulfilled 200) item s)) = store_characters s)"
proof -
  have "length (updateCharacterSync name realm ts cs) = length cs"
    using updateCharacterSync_touches_lastSync_only[of None name realm ts cs]
    by (metis length_map)
  then show ?thesis
    by (simp add: updateCharacterSync_no_match updateCharacterSync_touches_lastSync_only
          uploadSingleItem_def Let_def sync_characters_no_match del: set_map)
qed

text \<open>
  The no-op at a concrete input: the store holds Foo of realm Bar; an update for Baz of
  realm Bar, and the delivery of a snapshot whose only key is \<open>Baz-Bar\<close>, leave it as
  it is.
\<close>

theorem updateCharacterSync_only_configured_witness:
  "updateCharacterSync ''Baz'' ''Bar'' 7 [configured ''Foo'' ''Bar''] = [configured ''Foo'' ''Bar''] \<and>
   store_characters (snd (uploadSingleItem (Fulfilled 200)
      \<lparr>item_data = snapshot_of [(''Baz-Bar'', plain_character ''Baz'' ''Bar'')],
       filePath = ''f'', item_timestamp = 7\<rparr>
      ((idle_uploader [] 0 0)\<lparr>store_characters := [configured ''Foo'' ''Bar'']\<rparr>)))
   = [configured ''Foo'' ''Bar'']"
  using updateCharacterSync_only_configured
    [of "[configured ''Foo'' ''Bar'']" "''Baz''" "''Bar''" 7
        "\<lparr>item_data = snapshot_of [(''Baz-Bar'', plain_character ''Baz'' ''Bar'')],
          filePath = ''f'', item_timestamp = 7\<rparr>"
        "(idle_uploader [] 0 0)\<lparr>store_characters := [configured ''Foo'' ''Bar'']\<rparr>"]
  by (simp add: configured_def snapshot_of_def idle_uploader_def sync_name_def sync_realm_def)

section \<open>Properties of the upload queue\<close>

text \<open>
  C8. A delivery that succeeds (the response is fulfilled with status 200) returns
  normally, leaves the global consecutive-failure counter at 0, and has run the config
  provider's last-sync update for every character key of the delivered snapshot: for
  each key, the store's entry for the name and realm the key splits into, when there
  is one, now carries the item's timestamp.
\<close>

theorem delivery_success_resets_and_syncs:
  "fst (uploadSingleItem (Fulfilled 200) item s) = Inr () \<and>
   consecutiveFailures (snd (uploadSingleItem (Fulfilled 200) item s)) = 0 \<and>
   (\<forall>k \<in> set (map fst (characters (item_data item))).
      List.find (\<lambda>c. cfg_name c = sync_name k \<and> cfg_realm c = sync_realm k)
        (store_characters (snd (uploadSingleItem (Fulfilled 200) item s))) =
      map_option (\<lambda>c. c\<lparr>lastSync := Some (item_timestamp item)\<rparr>)
        (List.find (\<lambda>c. cfg_name c = sync_name k \<and> cfg_realm c = sync_realm k)
           (store_characters s)))"
  by (auto simp: uploadSingleItem_def Let_def find_sync_characters simp del: set_map)

text \<open>
  Scenario E: the delivered snapshot holds \<open>A-R1\<close> and \<open>B-R1\<close>, both configured; after
  the delivery both entries of the store carry the item's timestamp 42.
\<close>

theorem delivery_success_resets_and_syncs_witness:
  "store_characters (snd (uploadSingleItem (Fulfilled 200)
      \<lparr>item_data = snapshot_of [(''A-R1'', plain_character ''A'' ''R1''),
                                (''B-R1'', plain_character ''B'' ''R1'')],
       filePath = ''f'', item_timestamp = 42\<rparr>
      ((idle_uploader [] 2 0)\<lparr>store_characters := [configured ''A'' ''R1'', configured ''B'' ''R1'']\<rparr>)))
   = [(configured ''A'' ''R1'')\<lparr>lastSync := Some 42\<rparr>,
      (configured ''B'' ''R1'')\<lparr>lastSync := Some 42\<rparr>] \<and>
   consecutiveFailures (snd (uploadSingleItem (Fulfilled 200)
      \<lparr>item_data = snapshot_of [(''A-R1'', plain_character ''A'' ''R1''),
                                (''B-R1'', plain_character ''B'' ''R1'')],
       filePath = ''f'', item_timestamp = 42\<rparr>
      ((idle_uploader [] 2 0)\<lparr>store_characters := [configured ''A'' ''R1'', configured ''B'' ''R1'']\<rparr>)))
   = 0"
  using delivery_success_resets_and_syncs
    [of "\<lparr>item_data = snapshot_of [(''A-R1'', plain_character ''A'' ''R1''),
                                   (''B-R1'', plain_character ''B'' ''R1'')],
          filePath = ''f'', item_timestamp = 42\<rparr>"
        "(idle_uploader [] 2 0)\<lparr>store_characters := [configured ''A'' ''R1'', configured ''B'' ''R1'']\<rparr>"]
  by (simp add: uploadSingleItem_def sync_characters_def configured_def snapshot_of_def
        idle_uploader_def sync_name_def sync_realm_def)











end
